theory Spec2Isabelle
  imports Complex_Main "HOL-Library.Sublist"
begin

section \<open>The lyrics alignment service (main.py)\<close>

text \<open>
  A shallow embedding of \<^verbatim>\<open>main.py\<close>: the request validator, the four pipeline stages, the
  reconciler \<^verbatim>\<open>parse_aeneas_output\<close>, the handler \<^verbatim>\<open>align_lyrics\<close> with its cleanup, and the
  startup check \<^verbatim>\<open>check_dependencies\<close>.

  Everything outside the source is an explicit input: the file system is a \<open>world\<close>, the
  network, the child processes, the JSON reader and the conversion of a str by \<^verbatim>\<open>float()\<close> are
  fields of an environment \<open>env\<close>. A call that may never return has an \<open>option\<close> result,
  \<open>None\<close> standing for "does not return". A raise is the \<open>Inl\<close> of a sum.
\<close>

subsection \<open>Python values\<close>

text \<open>
  A Python str is a \<open>string\<close> holding its UTF-8 encoding; \<open>code_points\<close> splits it into
  its code points, which is what \<^verbatim>\<open>len\<close>, indexing and iteration of a str count.
\<close>

type_synonym path = string

definition is_cont :: "char \<Rightarrow> bool" where
  "is_cont c = (of_char c div 64 = (2::nat))"

fun code_points :: "string \<Rightarrow> string list" where
  "code_points [] = []"
| "code_points (c # cs) =
     (case code_points cs of
        (d # ds) # ps \<Rightarrow> if is_cont d then (c # d # ds) # ps else [c] # (d # ds) # ps
      | _ \<Rightarrow> [[c]])"

text \<open>\<^verbatim>\<open>str(n)\<close> of a non-negative int, as the f-strings of the source print it.\<close>

definition digit_char :: "nat \<Rightarrow> char" where
  "digit_char d = ''0123456789'' ! d"

fun str_nat :: "nat \<Rightarrow> string" where
  "str_nat n = (if n < 10 then [digit_char n] else str_nat (n div 10) @ [digit_char (n mod 10)])"

declare str_nat.simps [simp del]

text \<open>A text between single quotes, as the interpreter's messages name a type or a key.\<close>

definition quoted :: "string \<Rightarrow> string" where
  "quoted s = [CHR 0x27] @ s @ [CHR 0x27]"

text \<open>\<^verbatim>\<open>sep.join(xs)\<close>.\<close>

fun join :: "string \<Rightarrow> string list \<Rightarrow> string" where
  "join sep [] = []"
| "join sep [x] = x"
| "join sep (x # y # ys) = x @ sep @ join sep (y # ys)"

text \<open>
  \<^verbatim>\<open>s.strip()\<close>: the code points that \<^verbatim>\<open>str.isspace\<close> accepts are removed from both ends.
\<close>

definition whitespace :: "string list" where
  "whitespace =
     [[CHR 0x09], [CHR 0x0A], [CHR 0x0B], [CHR 0x0C], [CHR 0x0D],
      [CHR 0x1C], [CHR 0x1D], [CHR 0x1E], [CHR 0x1F], [CHR 0x20],
      [CHR 0xC2, CHR 0x85], [CHR 0xC2, CHR 0xA0], [CHR 0xE1, CHR 0x9A, CHR 0x80],
      [CHR 0xE2, CHR 0x80, CHR 0x80], [CHR 0xE2, CHR 0x80, CHR 0x81],
      [CHR 0xE2, CHR 0x80, CHR 0x82], [CHR 0xE2, CHR 0x80, CHR 0x83],
      [CHR 0xE2, CHR 0x80, CHR 0x84], [CHR 0xE2, CHR 0x80, CHR 0x85],
      [CHR 0xE2, CHR 0x80, CHR 0x86], [CHR 0xE2, CHR 0x80, CHR 0x87],
      [CHR 0xE2, CHR 0x80, CHR 0x88], [CHR 0xE2, CHR 0x80, CHR 0x89],
      [CHR 0xE2, CHR 0x80, CHR 0x8A], [CHR 0xE2, CHR 0x80, CHR 0xA8],
      [CHR 0xE2, CHR 0x80, CHR 0xA9], [CHR 0xE2, CHR 0x80, CHR 0xAF],
      [CHR 0xE2, CHR 0x81, CHR 0x9F], [CHR 0xE3, CHR 0x80, CHR 0x80]]"

definition isspace :: "string \<Rightarrow> bool" where
  "isspace p = (p \<in> set whitespace)"

definition strip :: "string \<Rightarrow> string" where
  "strip s = concat (rev (dropWhile isspace (rev (dropWhile isspace (code_points s)))))"

subsection \<open>Exceptions\<close>

text \<open>
  \<open>HTTPException status_code detail\<close> is FastAPI's; every other exception is
  \<open>Raised cls msg\<close> with its class and its \<^verbatim>\<open>str(e)\<close>. A \<open>CalledProcessError\<close> carries the
  return code and the captured stderr of the child.
\<close>

datatype exc_class =
    AttributeError | TypeError | KeyError | IndexError | ValueError | OverflowError
  | RuntimeError | ImportError | OSError | FileNotFoundError | TimeoutExpired
  | CalledProcessError int string
  | OtherError string

datatype exc = HTTPException nat string | Raised exc_class string

fun str_exc :: "exc \<Rightarrow> string" where
  "str_exc (HTTPException c d) = str_nat c @ '': '' @ d"
| "str_exc (Raised cls m) = m"

subsection \<open>Floats and JSON documents\<close>

text \<open>
  A Python float is the real number it denotes or one of the three special values.
  \<open>float_le\<close> is \<^verbatim>\<open><=\<close> on floats: every comparison with \<open>NaN\<close> is false.
\<close>

datatype pyfloat = Finite real | PosInf | NegInf | NaN

fun float_le :: "pyfloat \<Rightarrow> pyfloat \<Rightarrow> bool" where
  "float_le NaN y = False"
| "float_le x NaN = False"
| "float_le NegInf y = True"
| "float_le x PosInf = True"
| "float_le (Finite a) (Finite b) = (a \<le> b)"
| "float_le x y = False"

text \<open>
  What \<^verbatim>\<open>json.load\<close> returns: \<open>None\<close>, a bool, an int, a float, a str, a list, or a dict
  given by its items in order (the keys of a dict are distinct).
\<close>

datatype json =
    JNull | JBool bool | JInt int | JFloat pyfloat | JStr string
  | JArr "json list" | JObj "(string \<times> json) list"

fun type_name :: "json \<Rightarrow> string" where
  "type_name JNull = ''NoneType''"
| "type_name (JBool b) = ''bool''"
| "type_name (JInt i) = ''int''"
| "type_name (JFloat f) = ''float''"
| "type_name (JStr s) = ''str''"
| "type_name (JArr xs) = ''list''"
| "type_name (JObj kvs) = ''dict''"

text \<open>
  The operations of the interpreter that the reconciler applies to the document, each with
  the exception it raises on a value of the wrong type (the message texts are CPython 3.11's).
\<close>

text \<open>\<^verbatim>\<open>x.get(k, d)\<close>\<close>

fun py_get :: "json \<Rightarrow> string \<Rightarrow> json \<Rightarrow> exc + json" where
  "py_get (JObj kvs) k d = Inr (case map_of kvs k of None \<Rightarrow> d | Some v \<Rightarrow> v)"
| "py_get x k d =
     Inl (Raised AttributeError (quoted (type_name x) @ '' object has no attribute '' @ quoted ''get''))"

text \<open>\<^verbatim>\<open>len(x)\<close>\<close>

fun py_len :: "json \<Rightarrow> exc + nat" where
  "py_len (JArr xs) = Inr (length xs)"
| "py_len (JObj kvs) = Inr (length kvs)"
| "py_len (JStr s) = Inr (length (code_points s))"
| "py_len x = Inl (Raised TypeError (''object of type '' @ quoted (type_name x) @ '' has no len()''))"

text \<open>The items that \<^verbatim>\<open>enumerate(x)\<close> walks through: of a dict its keys, of a str its characters.\<close>

fun py_iter :: "json \<Rightarrow> exc + json list" where
  "py_iter (JArr xs) = Inr xs"
| "py_iter (JObj kvs) = Inr (map (\<lambda>kv. JStr (fst kv)) kvs)"
| "py_iter (JStr s) = Inr (map JStr (code_points s))"
| "py_iter x = Inl (Raised TypeError (quoted (type_name x) @ '' object is not iterable''))"

text \<open>\<^verbatim>\<open>k in x\<close> for a str \<open>k\<close>: a key of a dict, an element of a list, a substring of a str.\<close>

fun py_in :: "string \<Rightarrow> json \<Rightarrow> exc + bool" where
  "py_in k (JObj kvs) = Inr (k \<in> set (map fst kvs))"
| "py_in k (JArr xs) = Inr (JStr k \<in> set xs)"
| "py_in k (JStr s) = Inr (sublist k s)"
| "py_in k x = Inl (Raised TypeError (''argument of type '' @ quoted (type_name x) @ '' is not iterable''))"

text \<open>\<^verbatim>\<open>x[k]\<close> for a str \<open>k\<close>\<close>

fun py_getitem :: "json \<Rightarrow> string \<Rightarrow> exc + json" where
  "py_getitem (JObj kvs) k =
     (case map_of kvs k of None \<Rightarrow> Inl (Raised KeyError (quoted k)) | Some v \<Rightarrow> Inr v)"
| "py_getitem (JArr xs) k =
     Inl (Raised TypeError ''list indices must be integers or slices, not str'')"
| "py_getitem (JStr s) k = Inl (Raised TypeError (''string indices must be integers, not '' @ quoted ''str''))"
| "py_getitem x k = Inl (Raised TypeError (quoted (type_name x) @ '' object is not subscriptable''))"

text \<open>The truth value of \<open>x\<close>, as \<^verbatim>\<open>not x\<close> tests it.\<close>

fun truthy :: "json \<Rightarrow> bool" where
  "truthy JNull = False"
| "truthy (JBool b) = b"
| "truthy (JInt i) = (i \<noteq> 0)"
| "truthy (JFloat f) = (f \<noteq> Finite 0)"
| "truthy (JStr s) = (s \<noteq> [])"
| "truthy (JArr xs) = (xs \<noteq> [])"
| "truthy (JObj kvs) = (kvs \<noteq> [])"

text \<open>\<^verbatim>\<open>x[0]\<close> and \<^verbatim>\<open>x[-1]\<close>\<close>

fun py_first :: "json \<Rightarrow> exc + json" where
  "py_first (JArr xs) =
     (case xs of [] \<Rightarrow> Inl (Raised IndexError ''list index out of range'') | y # ys \<Rightarrow> Inr y)"
| "py_first (JStr s) =
     (case code_points s of [] \<Rightarrow> Inl (Raised IndexError ''string index out of range'')
      | p # ps \<Rightarrow> Inr (JStr p))"
| "py_first (JObj kvs) = Inl (Raised KeyError ''0'')"
| "py_first x = Inl (Raised TypeError (quoted (type_name x) @ '' object is not subscriptable''))"

fun py_last :: "json \<Rightarrow> exc + json" where
  "py_last (JArr xs) =
     (case xs of [] \<Rightarrow> Inl (Raised IndexError ''list index out of range'') | y # ys \<Rightarrow> Inr (last xs))"
| "py_last (JStr s) =
     (case code_points s of [] \<Rightarrow> Inl (Raised IndexError ''string index out of range'')
      | p # ps \<Rightarrow> Inr (JStr (last (code_points s))))"
| "py_last (JObj kvs) = Inl (Raised KeyError ''-1'')"
| "py_last x = Inl (Raised TypeError (quoted (type_name x) @ '' object is not subscriptable''))"

text \<open>
  The conversion of a non-negative int to binary64: the nearest number with 53 significant
  bits, a tie going to the even one. \<open>bit_length n\<close> is the number of bits of \<open>n\<close>.
\<close>

fun bit_length :: "nat \<Rightarrow> nat" where
  "bit_length n = (if n = 0 then 0 else Suc (bit_length (n div 2)))"

declare bit_length.simps [simp del]

definition round_binary64 :: "nat \<Rightarrow> nat" where
  "round_binary64 n =
     (let e = bit_length n - 53; q = n div 2 ^ e; r = n mod 2 ^ e; half = 2 ^ e div 2
      in if e = 0 then n
         else if half < r \<or> (r = half \<and> odd q) then (q + 1) * 2 ^ e
         else q * 2 ^ e)"

text \<open>
  \<^verbatim>\<open>float(x)\<close>. The conversion of a str is the interpreter's and is taken as the parameter
  \<open>fs\<close>, which gives the float or the message of the \<open>ValueError\<close>. An int is rounded to
  binary64, and raises \<open>OverflowError\<close> when the rounded value is beyond its range.
\<close>

fun py_float :: "(string \<Rightarrow> string + pyfloat) \<Rightarrow> json \<Rightarrow> exc + pyfloat" where
  "py_float fs (JFloat f) = Inr f"
| "py_float fs (JInt i) =
     (if round_binary64 (nat \<bar>i\<bar>) < 2 ^ 1024
      then Inr (Finite (if i < 0 then - real (round_binary64 (nat \<bar>i\<bar>))
                        else real (round_binary64 (nat \<bar>i\<bar>))))
      else Inl (Raised OverflowError ''int too large to convert to float''))"
| "py_float fs (JBool b) = Inr (Finite (if b then 1 else 0))"
| "py_float fs (JStr s) =
     (case fs s of Inl m \<Rightarrow> Inl (Raised ValueError m) | Inr f \<Rightarrow> Inr f)"
| "py_float fs x =
     Inl (Raised TypeError
       (''float() argument must be a string or a real number, not '' @ quoted (type_name x)))"

text \<open>A bind for results: the first raise ends the computation.\<close>

definition and_then :: "exc + 'a \<Rightarrow> ('a \<Rightarrow> exc + 'b) \<Rightarrow> exc + 'b" where
  "and_then r f = (case r of Inl e \<Rightarrow> Inl e | Inr x \<Rightarrow> f x)"

subsection \<open>The request and result models\<close>

record AlignmentRequest =
  audio_url :: string
  lyrics :: "string list"

record AlignmentResult =
  line_index :: int
  text' :: string
  start :: pyfloat
  end' :: pyfloat

text \<open>
  \<^verbatim>\<open>AlignmentRequest.validate_lyrics\<close>. \<open>check_lines\<close> is its loop over \<^verbatim>\<open>enumerate(v)\<close>; the
  line break tested is \<^verbatim>\<open>'\n'\<close>, the character U+000A.
\<close>

definition newline :: char where
  "newline = CHR 0x0A"

definition multiline_msg :: "nat \<Rightarrow> string" where
  "multiline_msg i =
     ''lyrics['' @ str_nat i @ ''] appears to be a multiline string. '' @
     ''Each item in lyrics should be a single line. '' @
     ''Split multiline strings into separate list items.''"

fun check_lines :: "nat \<Rightarrow> json list \<Rightarrow> exc option" where
  "check_lines i [] = None"
| "check_lines i (JStr line # rest) =
     (if newline \<in> set line then Some (Raised ValueError (multiline_msg i))
      else check_lines (i + 1) rest)"
| "check_lines i (line # rest) =
     Some (Raised ValueError
       (''lyrics['' @ str_nat i @ ''] must be a string, got '' @ type_name line))"

fun validate_lyrics :: "json \<Rightarrow> exc + json" where
  "validate_lyrics (JArr v) =
     (if v = [] then Inl (Raised ValueError ''lyrics cannot be empty'')
      else (case check_lines 0 v of Some e \<Rightarrow> Inl e | None \<Rightarrow> Inr (JArr v)))"
| "validate_lyrics v = Inl (Raised ValueError ''lyrics must be a list of strings'')"

text \<open>
  The construction of an \<open>AlignmentRequest\<close> from a request body by pydantic: the URL is
  parsed by the \<^verbatim>\<open>HttpUrl\<close> type, taken as the parameter \<open>http_url\<close>, which gives the
  normalised text that \<^verbatim>\<open>str(request.audio_url)\<close> returns, or nothing for a text that is
  not a URL; the \<^verbatim>\<open>lyrics\<close> field must be a list of str, and the field validator runs on
  it. \<open>None\<close> is pydantic's \<^verbatim>\<open>ValidationError\<close>. The field \<open>audio_url\<close> of the model holds
  the normalised text.
\<close>

fun list_of_str :: "json list \<Rightarrow> string list option" where
  "list_of_str [] = Some []"
| "list_of_str (JStr s # xs) = map_option ((#) s) (list_of_str xs)"
| "list_of_str (x # xs) = None"

fun new_AlignmentRequest ::
  "(string \<Rightarrow> string option) \<Rightarrow> string \<Rightarrow> json \<Rightarrow> AlignmentRequest option" where
  "new_AlignmentRequest http_url url (JArr v) =
     (case list_of_str v of
        None \<Rightarrow> None
      | Some ls \<Rightarrow>
          (case validate_lyrics (JArr v) of
             Inl e \<Rightarrow> None
           | Inr v' \<Rightarrow>
               (case http_url url of
                  None \<Rightarrow> None
                | Some normalised \<Rightarrow> Some \<lparr>audio_url = normalised, lyrics = ls\<rparr>)))"
| "new_AlignmentRequest http_url url v = None"

subsection \<open>The world outside: files, child processes, network\<close>

text \<open>
  The scratch storage maps a path to the text of its file. \<open>write_error\<close> and
  \<open>remove_error\<close> name the paths where opening for writing, or removing, raises an
  \<open>OSError\<close>, with its message. \<open>spawned\<close> logs the command line of every child process.
\<close>

record world =
  files :: "path \<rightharpoonup> string"
  write_error :: "path \<rightharpoonup> string"
  remove_error :: "path \<rightharpoonup> string"
  spawned :: "string list list"

definition no_such_file :: "path \<Rightarrow> exc" where
  "no_such_file p =
     Raised FileNotFoundError (''[Errno 2] No such file or directory: '' @ quoted p)"

definition os_path_exists :: "world \<Rightarrow> path \<Rightarrow> bool" where
  "os_path_exists w p = (files w p \<noteq> None)"

definition os_remove :: "world \<Rightarrow> path \<Rightarrow> exc + world" where
  "os_remove w p =
     (case remove_error w p of
        Some m \<Rightarrow> Inl (Raised OSError m)
      | None \<Rightarrow>
          (case files w p of
             None \<Rightarrow> Inl (no_such_file p)
           | Some content \<Rightarrow> Inr (w\<lparr>files := (files w)(p := None)\<rparr>)))"

text \<open>\<^verbatim>\<open>open(p, "w")\<close> and the writes that follow, up to the close of the file.\<close>

definition write_file :: "world \<Rightarrow> path \<Rightarrow> string \<Rightarrow> exc + world" where
  "write_file w p content =
     (case write_error w p of
        Some m \<Rightarrow> Inl (Raised OSError m)
      | None \<Rightarrow> Inr (w\<lparr>files := (files w)(p \<mapsto> content)\<rparr>))"

text \<open>
  What a child process does: the program cannot be started (\<open>Fails\<close>, with the exception
  that \<^verbatim>\<open>subprocess.run\<close> raises: \<open>FileNotFoundError\<close> for an absent binary), it exits after
  some seconds with a return code, its stdout and its stderr, or it never exits.
\<close>

datatype child = Fails exc_class string | Exits real int string string | Hangs

record CompletedProcess =
  returncode :: int
  stdout :: string
  stderr :: string

text \<open>
  The arguments of \<^verbatim>\<open>subprocess.run\<close> that vary in the source (\<^verbatim>\<open>capture_output=True\<close> and
  \<^verbatim>\<open>text=True\<close> at every call); the timeout is in seconds, \<open>None\<close> when the call passes none.
\<close>

record run_args =
  args :: "string list"
  check :: bool
  timeout :: "nat option"

definition command_text :: "string list \<Rightarrow> string" where
  "command_text cmd = ''Command '' @ quoted (''['' @ join '', '' (map quoted cmd) @ '']'')"

definition timeout_text :: "run_args \<Rightarrow> string" where
  "timeout_text a =
     command_text (args a) @ '' timed out after '' @
     (case timeout a of None \<Rightarrow> ''None'' | Some t \<Rightarrow> str_nat t) @ '' seconds''"

definition exit_text :: "run_args \<Rightarrow> int \<Rightarrow> string" where
  "exit_text a rc =
     command_text (args a) @ '' returned non-zero exit status '' @
     (if rc < 0 then ''-'' else []) @ str_nat (nat \<bar>rc\<bar>) @ ''.''"

text \<open>
  \<^verbatim>\<open>subprocess.run\<close>: without a timeout it waits for the child, so it does not return when
  the child never exits; with one, the child is killed at expiry and \<open>TimeoutExpired\<close> is
  raised. With \<^verbatim>\<open>check=True\<close> a non-zero return code raises \<open>CalledProcessError\<close>.
\<close>

fun subprocess_run :: "run_args \<Rightarrow> child \<Rightarrow> (exc + CompletedProcess) option" where
  "subprocess_run a (Fails cls m) = Some (Inl (Raised cls m))"
| "subprocess_run a Hangs =
     (case timeout a of
        None \<Rightarrow> None
      | Some t \<Rightarrow> Some (Inl (Raised TimeoutExpired (timeout_text a))))"
| "subprocess_run a (Exits d rc out err) =
     (if (case timeout a of None \<Rightarrow> False | Some t \<Rightarrow> real t < d)
      then Some (Inl (Raised TimeoutExpired (timeout_text a)))
      else if check a \<and> rc \<noteq> 0
      then Some (Inl (Raised (CalledProcessError rc err) (exit_text a rc)))
      else Some (Inr \<lparr>returncode = rc, stdout = out, stderr = err\<rparr>))"

text \<open>
  The environment of one request: the identifier \<^verbatim>\<open>uuid.uuid4()\<close> returns, the path of the
  interpreter, what \<^verbatim>\<open>urlretrieve\<close> does (\<open>Some m\<close> when it raises, with the message; no
  result when it never returns), what a child started with a command line does and the
  world it leaves, what \<^verbatim>\<open>json.load\<close> reads in a text (or the message of its exception), and
  \<^verbatim>\<open>float()\<close> of a str.
\<close>

record env =
  uuid4 :: string
  sys_executable :: string
  urlretrieve :: "string \<Rightarrow> path \<Rightarrow> world \<Rightarrow> (string option \<times> world) option"
  spawn :: "string list \<Rightarrow> world \<Rightarrow> child \<times> world"
  json_loads :: "string \<Rightarrow> string + json"
  float_str :: "string \<Rightarrow> string + pyfloat"

definition run_child :: "env \<Rightarrow> run_args \<Rightarrow> world \<Rightarrow> ((exc + CompletedProcess) \<times> world) option" where
  "run_child env a w =
     (case spawn env (args a) w of
        (c, w') \<Rightarrow>
          map_option (\<lambda>r. (r, w'\<lparr>spawned := spawned w' @ [args a]\<rparr>)) (subprocess_run a c))"

subsection \<open>The pipeline stages\<close>

text \<open>
  Each stage takes the world and returns what it raised or returned together with the world
  it leaves.
\<close>

definition download_audio :: "env \<Rightarrow> string \<Rightarrow> path \<Rightarrow> world \<Rightarrow> ((exc + unit) \<times> world) option" where
  "download_audio env url output_path w =
     (case urlretrieve env url output_path w of
        None \<Rightarrow> None
      | Some (None, w') \<Rightarrow> Some (Inr (), w')
      | Some (Some m, w') \<Rightarrow>
          Some (Inl (HTTPException 400 (''Failed to download audio: '' @ m)), w'))"

text \<open>The \<^verbatim>\<open>except\<close> clauses of \<^verbatim>\<open>convert_audio_to_wav\<close>; any other exception propagates.\<close>

fun ffmpeg_except :: "exc + CompletedProcess \<Rightarrow> exc + unit" where
  "ffmpeg_except (Inl (Raised (CalledProcessError rc err) m)) =
     Inl (HTTPException 500 (''Audio conversion failed: '' @ err))"
| "ffmpeg_except (Inl (Raised FileNotFoundError m)) =
     Inl (HTTPException 500 ''ffmpeg not found. Please install ffmpeg.'')"
| "ffmpeg_except (Inl e) = Inl e"
| "ffmpeg_except (Inr result) = Inr ()"

definition ffmpeg_cmd :: "path \<Rightarrow> path \<Rightarrow> string list" where
  "ffmpeg_cmd input_path output_path =
     [''ffmpeg'', ''-i'', input_path, ''-ac'', ''1'', ''-ar'', ''16000'', ''-y'', output_path]"

definition convert_audio_to_wav :: "env \<Rightarrow> path \<Rightarrow> path \<Rightarrow> world \<Rightarrow> ((exc + unit) \<times> world) option" where
  "convert_audio_to_wav env input_path output_path w =
     (case run_child env \<lparr>args = ffmpeg_cmd input_path output_path, check = True, timeout = None\<rparr> w of
        None \<Rightarrow> None
      | Some (r, w') \<Rightarrow> Some (ffmpeg_except r, w'))"

definition write_lyrics_file :: "string list \<Rightarrow> path \<Rightarrow> world \<Rightarrow> (exc + unit) \<times> world" where
  "write_lyrics_file lyrics' output_path w =
     (if lyrics' = [] then (Inl (HTTPException 400 ''Lyrics array cannot be empty''), w)
      else (case write_file w output_path (concat (map (\<lambda>line. strip line @ [newline]) lyrics')) of
              Inl e \<Rightarrow> (Inl e, w)
            | Inr w' \<Rightarrow> (Inr (), w')))"

text \<open>The \<^verbatim>\<open>except\<close> clauses of \<^verbatim>\<open>run_aeneas_alignment\<close>.\<close>

fun aeneas_except :: "exc + CompletedProcess \<Rightarrow> exc + unit" where
  "aeneas_except (Inl (Raised (CalledProcessError rc err) m)) =
     Inl (HTTPException 500 (''Aeneas alignment failed: '' @ err))"
| "aeneas_except (Inl (Raised FileNotFoundError m)) =
     Inl (HTTPException 500 ''Aeneas not found. Please install aeneas.'')"
| "aeneas_except (Inl e) = Inl e"
| "aeneas_except (Inr result) = Inr ()"

definition aeneas_cmd :: "env \<Rightarrow> path \<Rightarrow> path \<Rightarrow> path \<Rightarrow> string list" where
  "aeneas_cmd env audio_path text_path output_path =
     [sys_executable env, ''-m'', ''aeneas.tools.execute_task'', audio_path, text_path,
      ''task_language=jpn|os_task_file_format=json|is_text_type=plain'', output_path]"

definition run_aeneas_alignment ::
  "env \<Rightarrow> path \<Rightarrow> path \<Rightarrow> path \<Rightarrow> world \<Rightarrow> ((exc + unit) \<times> world) option" where
  "run_aeneas_alignment env audio_path text_path output_path w =
     (case run_child env
             \<lparr>args = aeneas_cmd env audio_path text_path output_path, check = True, timeout = None\<rparr> w of
        None \<Rightarrow> None
      | Some (r, w') \<Rightarrow> Some (aeneas_except r, w'))"

subsection \<open>The reconciler\<close>

text \<open>
  The body of the loop of \<^verbatim>\<open>parse_aeneas_output\<close> that finds \<^verbatim>\<open>start\<close> and \<^verbatim>\<open>end\<close> of the
  fragment at index \<open>idx\<close>: the fragment's own \<^verbatim>\<open>begin\<close> and \<^verbatim>\<open>end\<close> when it has both,
  otherwise the \<^verbatim>\<open>begin\<close> of the first and the \<^verbatim>\<open>end\<close> of the last of its \<^verbatim>\<open>lines\<close>.
  \<^verbatim>\<open>and\<close> evaluates its second operand only when the first is true.
\<close>

definition fragment_times ::
  "(string \<Rightarrow> string + pyfloat) \<Rightarrow> nat \<Rightarrow> json \<Rightarrow> exc + pyfloat \<times> pyfloat" where
  "fragment_times fs idx fragment =
     and_then (py_in ''begin'' fragment) (\<lambda>has_begin.
     and_then (if has_begin then py_in ''end'' fragment else Inr False) (\<lambda>direct.
     if direct then
       and_then (py_getitem fragment ''begin'') (\<lambda>b.
       and_then (py_float fs b) (\<lambda>start.
       and_then (py_getitem fragment ''end'') (\<lambda>e.
       and_then (py_float fs e) (\<lambda>end.
       Inr (start, end)))))
     else
       and_then (py_get fragment ''lines'' (JArr [])) (\<lambda>lines.
       if \<not> truthy lines then
         Inl (HTTPException 500
               (''Fragment '' @ str_nat (idx + 1) @ '' has no timing information''))
       else
         and_then (py_first lines) (\<lambda>first_line.
         and_then (py_last lines) (\<lambda>last_line.
         and_then (py_get first_line ''begin'' (JInt 0)) (\<lambda>b.
         and_then (py_float fs b) (\<lambda>start.
         and_then (py_get last_line ''end'' (JInt 0)) (\<lambda>e.
         and_then (py_float fs e) (\<lambda>end.
         Inr (start, end))))))))))"

text \<open>\<^verbatim>\<open>lyrics[idx]\<close>\<close>

definition py_index :: "'a list \<Rightarrow> nat \<Rightarrow> exc + 'a" where
  "py_index xs i =
     (if i < length xs then Inr (xs ! i) else Inl (Raised IndexError ''list index out of range''))"

text \<open>
  The loop \<^verbatim>\<open>for idx, fragment in enumerate(fragments)\<close>, with the list \<^verbatim>\<open>results\<close> built so
  far.
\<close>

fun results_loop ::
  "(string \<Rightarrow> string + pyfloat) \<Rightarrow> string list \<Rightarrow> nat \<Rightarrow> json list \<Rightarrow> AlignmentResult list
     \<Rightarrow> exc + AlignmentResult list" where
  "results_loop fs lyrics' idx [] results = Inr results"
| "results_loop fs lyrics' idx (fragment # rest) results =
     and_then (fragment_times fs idx fragment) (\<lambda>(start, end).
     and_then (py_index lyrics' idx) (\<lambda>line.
     results_loop fs lyrics' (idx + 1) rest
       (results @ [\<lparr>line_index = int idx + 1, text' = line, start = start, end' = end\<rparr>])))"

text \<open>The \<^verbatim>\<open>try\<close> block that opens and reads the output of the alignment tool.\<close>

definition read_json :: "env \<Rightarrow> world \<Rightarrow> path \<Rightarrow> exc + json" where
  "read_json env w p =
     (case files w p of
        None \<Rightarrow> Inl (no_such_file p)
      | Some content \<Rightarrow>
          (case json_loads env content of
             Inl m \<Rightarrow> Inl (Raised ValueError m)
           | Inr data \<Rightarrow> Inr data))"

definition mismatch_msg :: "nat \<Rightarrow> nat \<Rightarrow> string" where
  "mismatch_msg n k =
     ''Alignment mismatch: '' @ str_nat n @ '' fragments for '' @ str_nat k @ '' lyrics''"

text \<open>The part of \<^verbatim>\<open>parse_aeneas_output\<close> after the document is read.\<close>

definition reconcile ::
  "(string \<Rightarrow> string + pyfloat) \<Rightarrow> json \<Rightarrow> string list \<Rightarrow> exc + AlignmentResult list" where
  "reconcile fs data lyrics' =
     and_then (py_get data ''fragments'' (JArr [])) (\<lambda>fragments.
     and_then (py_len fragments) (\<lambda>n.
     if n \<noteq> length lyrics' then Inl (HTTPException 500 (mismatch_msg n (length lyrics')))
     else and_then (py_iter fragments) (\<lambda>items. results_loop fs lyrics' 0 items [])))"

definition parse_aeneas_output :: "env \<Rightarrow> world \<Rightarrow> path \<Rightarrow> string list \<Rightarrow> exc + AlignmentResult list" where
  "parse_aeneas_output env w output_path lyrics' =
     (case read_json env w output_path of
        Inl e \<Rightarrow> Inl (HTTPException 500 (''Failed to parse Aeneas output: '' @ str_exc e))
      | Inr data \<Rightarrow> reconcile (float_str env) data lyrics')"

subsection \<open>The handler of POST /align\<close>

definition downloaded_audio :: "env \<Rightarrow> path" where
  "downloaded_audio env = ''/tmp/audio_'' @ uuid4 env"

definition converted_audio :: "env \<Rightarrow> path" where
  "converted_audio env = ''/tmp/converted_'' @ uuid4 env @ ''.wav''"

definition lyrics_file :: "env \<Rightarrow> path" where
  "lyrics_file env = ''/tmp/lyrics_'' @ uuid4 env @ ''.txt''"

definition alignment_output :: "env \<Rightarrow> path" where
  "alignment_output env = ''/tmp/alignment_'' @ uuid4 env @ ''.json''"

text \<open>The \<^verbatim>\<open>try\<close> block of \<^verbatim>\<open>align_lyrics\<close>: the stages in order, the first raise ends it.\<close>

definition pipeline :: "env \<Rightarrow> AlignmentRequest \<Rightarrow> world \<Rightarrow> ((exc + AlignmentResult list) \<times> world) option" where
  "pipeline env request w =
     (case download_audio env (audio_url request) (downloaded_audio env) w of
        None \<Rightarrow> None
      | Some (Inl e, w1) \<Rightarrow> Some (Inl e, w1)
      | Some (Inr u, w1) \<Rightarrow>
     (case convert_audio_to_wav env (downloaded_audio env) (converted_audio env) w1 of
        None \<Rightarrow> None
      | Some (Inl e, w2) \<Rightarrow> Some (Inl e, w2)
      | Some (Inr u, w2) \<Rightarrow>
     (case write_lyrics_file (lyrics request) (lyrics_file env) w2 of
        (Inl e, w3) \<Rightarrow> Some (Inl e, w3)
      | (Inr u, w3) \<Rightarrow>
     (case run_aeneas_alignment env (converted_audio env) (lyrics_file env) (alignment_output env) w3 of
        None \<Rightarrow> None
      | Some (Inl e, w4) \<Rightarrow> Some (Inl e, w4)
      | Some (Inr u, w4) \<Rightarrow>
          Some (parse_aeneas_output env w4 (alignment_output env) (lyrics request), w4)))))"

text \<open>
  The \<^verbatim>\<open>except\<close> clauses of \<^verbatim>\<open>align_lyrics\<close>: an \<open>HTTPException\<close> is raised again, any other
  exception becomes a 500.
\<close>

fun align_except :: "exc + 'a \<Rightarrow> exc + 'a" where
  "align_except (Inl (HTTPException c d)) = Inl (HTTPException c d)"
| "align_except (Inl e) = Inl (HTTPException 500 (''Unexpected error: '' @ str_exc e))"
| "align_except (Inr results) = Inr results"

text \<open>
  The \<^verbatim>\<open>finally\<close> block. \<open>try_remove\<close> is the body of its loop, a \<^verbatim>\<open>try\<close> whose
  \<^verbatim>\<open>except Exception: pass\<close> drops what the removal raised; \<open>cleanup\<close> is the loop, which
  would stop at an exception leaving its body.
\<close>

definition try_remove :: "path \<Rightarrow> world \<Rightarrow> exc option \<times> world" where
  "try_remove file_path w =
     (case (if os_path_exists w file_path then os_remove w file_path else Inr w) of
        Inl e \<Rightarrow> (None, w)
      | Inr w' \<Rightarrow> (None, w'))"

fun cleanup :: "path list \<Rightarrow> world \<Rightarrow> exc option \<times> world" where
  "cleanup [] w = (None, w)"
| "cleanup (file_path # rest) w =
     (case try_remove file_path w of
        (Some e, w') \<Rightarrow> (Some e, w')
      | (None, w') \<Rightarrow> cleanup rest w')"

definition temp_files :: "env \<Rightarrow> path list" where
  "temp_files env = [downloaded_audio env, converted_audio env, lyrics_file env, alignment_output env]"

text \<open>
  \<^verbatim>\<open>align_lyrics\<close>: the outcome of the \<^verbatim>\<open>try\<close> statement is that of its body and handlers,
  unless the \<^verbatim>\<open>finally\<close> block itself raises.
\<close>

definition align_lyrics :: "env \<Rightarrow> AlignmentRequest \<Rightarrow> world \<Rightarrow> ((exc + AlignmentResult list) \<times> world) option" where
  "align_lyrics env request w =
     (case pipeline env request w of
        None \<Rightarrow> None
      | Some (r, w') \<Rightarrow>
          (case cleanup (temp_files env) w' of
             (Some e, w'') \<Rightarrow> Some (Inl e, w'')
           | (None, w'') \<Rightarrow> Some (align_except r, w'')))"

text \<open>
  The route \<^verbatim>\<open>@app.post("/align")\<close> as FastAPI serves it: a body that does not make an
  \<open>AlignmentRequest\<close> is answered with 422 and the handler is not called; an
  \<open>HTTPException\<close> of the handler is answered with its status code and detail.
\<close>

datatype response = Success "AlignmentResult list" | Failure nat string | Unprocessable

fun respond :: "exc + AlignmentResult list \<Rightarrow> response" where
  "respond (Inr results) = Success results"
| "respond (Inl (HTTPException c d)) = Failure c d"
| "respond (Inl e) = Failure 500 ''Internal Server Error''"

definition post_align ::
  "env \<Rightarrow> (string \<Rightarrow> string option) \<Rightarrow> string \<Rightarrow> json \<Rightarrow> world \<Rightarrow> (response \<times> world) option" where
  "post_align env http_url url body_lyrics w =
     (case new_AlignmentRequest http_url url body_lyrics of
        None \<Rightarrow> Some (Unprocessable, w)
      | Some request \<Rightarrow>
          map_option (\<lambda>(r, w'). (respond r, w')) (align_lyrics env request w))"

subsection \<open>The startup check\<close>

text \<open>
  What the three probes of \<^verbatim>\<open>check_dependencies\<close> meet: the child started by
  \<^verbatim>\<open>ffmpeg -version\<close>, the child started by \<^verbatim>\<open>espeak-ng --version\<close>, and the exception the
  import of \<^verbatim>\<open>aeneas\<close> raises, if any.
\<close>

record probes =
  ffmpeg_probe :: child
  espeak_probe :: child
  aeneas_import :: "(exc_class \<times> string) option"

record console =
  printed_out :: string
  printed_err :: string

text \<open>
  The check of one tool, with the list \<^verbatim>\<open>errors\<close> so far: the two \<^verbatim>\<open>try\<close> statements of the
  source differ in the name of the tool and its version flag only.
\<close>

fun probe_except :: "string \<Rightarrow> string list \<Rightarrow> exc + CompletedProcess \<Rightarrow> exc + string list" where
  "probe_except tool errors (Inr result) =
     Inr (if returncode result \<noteq> 0 then errors @ [tool @ '' is installed but returned an error'']
          else errors)"
| "probe_except tool errors (Inl (Raised FileNotFoundError m)) =
     Inr (errors @ [tool @ '' not found. Install with: brew install '' @ tool @
                    '' (macOS) or apt-get install '' @ tool @ '' (Linux)''])"
| "probe_except tool errors (Inl (Raised TimeoutExpired m)) =
     Inr (errors @ [tool @ '' check timed out''])"
| "probe_except tool errors (Inl e) = Inl e"

definition probe_tool :: "string \<Rightarrow> string \<Rightarrow> child \<Rightarrow> string list \<Rightarrow> (exc + string list) option" where
  "probe_tool tool flag c errors =
     map_option (probe_except tool errors)
       (subprocess_run \<lparr>args = [tool, flag], check = False, timeout = Some 5\<rparr> c)"

fun import_except :: "string list \<Rightarrow> (exc_class \<times> string) option \<Rightarrow> exc + string list" where
  "import_except errors None = Inr errors"
| "import_except errors (Some (ImportError, m)) =
     Inr (errors @ [''aeneas Python module not found. Install with: pip3 install aeneas. Error: '' @ m])"
| "import_except errors (Some (cls, m)) = Inl (Raised cls m)"

text \<open>
  The message printed on failure. Adjacent string literals are one literal before \<^verbatim>\<open>*\<close>
  applies, so the second \<^verbatim>\<open>* 60\<close> of the source repeats the whole block from the newline
  before the headline to the \<^verbatim>\<open>=\<close> sign, not the \<^verbatim>\<open>=\<close> sign alone.
\<close>

definition error_msg :: "string list \<Rightarrow> string" where
  "error_msg errors = join [newline] (map (\<lambda>error. ''  - '' @ error) errors)"

definition msg_block :: "string list \<Rightarrow> string" where
  "msg_block errors =
     [newline] @ ''DEPENDENCY CHECK FAILED'' @ [newline] @
     ''The following required dependencies are missing or broken:'' @ [newline, newline] @
     error_msg errors @ [newline, newline] @
     ''Please install all dependencies before starting the server.'' @ [newline] @ ''=''"

definition full_msg :: "string list \<Rightarrow> string" where
  "full_msg errors =
     [newline] @ replicate 60 CHR ''='' @ concat (replicate 60 (msg_block errors)) @ [newline]"

definition verified_msg :: string where
  "verified_msg = [CHR 0xE2, CHR 0x9C, CHR 0x93] @ '' All dependencies verified: ffmpeg, espeak-ng, aeneas''"

definition report :: "string list \<Rightarrow> (exc + unit) \<times> console" where
  "report errors =
     (if errors \<noteq> [] then
        (Inl (Raised RuntimeError ''Missing required dependencies. See error messages above.''),
         \<lparr>printed_out = [], printed_err = full_msg errors @ [newline]\<rparr>)
      else (Inr (), \<lparr>printed_out = verified_msg @ [newline], printed_err = []\<rparr>))"

definition silent :: console where
  "silent = \<lparr>printed_out = [], printed_err = []\<rparr>"

definition check_dependencies :: "probes \<Rightarrow> ((exc + unit) \<times> console) option" where
  "check_dependencies p =
     (case probe_tool ''ffmpeg'' ''-version'' (ffmpeg_probe p) [] of
        None \<Rightarrow> None
      | Some (Inl e) \<Rightarrow> Some (Inl e, silent)
      | Some (Inr errors1) \<Rightarrow>
     (case probe_tool ''espeak-ng'' ''--version'' (espeak_probe p) errors1 of
        None \<Rightarrow> None
      | Some (Inl e) \<Rightarrow> Some (Inl e, silent)
      | Some (Inr errors2) \<Rightarrow>
     (case import_except errors2 (aeneas_import p) of
        Inl e \<Rightarrow> Some (Inl e, silent)
      | Inr errors3 \<Rightarrow> Some (report errors3))))"

text \<open>
  \<^verbatim>\<open>startup_event\<close> runs the check; the server starts to accept requests only when the
  startup handler returns.
\<close>

definition startup_event :: "probes \<Rightarrow> ((exc + unit) \<times> console) option" where
  "startup_event p = check_dependencies p"

definition accepts_requests :: "probes \<Rightarrow> bool" where
  "accepts_requests p = (case startup_event p of Some (Inr u, c) \<Rightarrow> True | _ \<Rightarrow> False)"

subsection \<open>A sample request\<close>

text \<open>
  A request of two lines (the first with blanks around it), an environment where the
  download and both tools succeed and the alignment tool reports two fragments with direct
  times, and an empty scratch storage. The sample document holds numbers only, so no str
  is converted by \<^verbatim>\<open>float()\<close>.
\<close>

definition demo_request :: AlignmentRequest where
  "demo_request = \<lparr>audio_url = ''https://x/a.mp3'', lyrics = ['' haru no uta '', ''tooi yume'']\<rparr>"

definition demo_doc :: json where
  "demo_doc =
     JObj [(''fragments'',
       JArr [JObj [(''begin'', JFloat (Finite 0)), (''end'', JFloat (Finite 2.5))],
             JObj [(''begin'', JFloat (Finite 2.5)), (''end'', JInt 5)]])]"

definition demo_env :: env where
  "demo_env =
     \<lparr>uuid4 = ''7f3a'',
      sys_executable = ''/usr/bin/python3'',
      urlretrieve = (\<lambda>url p w. Some (None, w\<lparr>files := (files w)(p \<mapsto> ''audio'')\<rparr>)),
      spawn = (\<lambda>cmd w. (Exits 1 0 [] [], w\<lparr>files := (files w)(last cmd \<mapsto> ''out'')\<rparr>)),
      json_loads = (\<lambda>s. if s = ''out'' then Inr demo_doc else Inl ''Expecting value''),
      float_str = (\<lambda>s. Inl (''could not convert string to float: '' @ quoted s))\<rparr>"

text \<open>The \<^verbatim>\<open>HttpUrl\<close> parser on the sample URL, which it leaves as it is.\<close>

definition demo_http_url :: "string \<Rightarrow> string option" where
  "demo_http_url url = (if url = ''https://x/a.mp3'' then Some ''https://x/a.mp3'' else None)"

definition demo_world :: world where
  "demo_world = \<lparr>files = Map.empty, write_error = Map.empty, remove_error = Map.empty, spawned = []\<rparr>"

text \<open>
  Further samples: a storage that holds the tool's output at a path; a document whose
  fragments carry times that run backwards or are negative, with an environment that reads
  it; and a document whose only fragment carries two sub-line records and no times of its
  own.
\<close>

definition demo_output_world :: world where
  "demo_output_world = demo_world\<lparr>files := [''/tmp/alignment_7f3a.json'' \<mapsto> ''out'']\<rparr>"

definition backwards_doc :: json where
  "backwards_doc =
     JObj [(''fragments'',
       JArr [JObj [(''begin'', JInt 5), (''end'', JInt 2)],
             JObj [(''begin'', JFloat (Finite (- 3))), (''end'', JFloat (Finite (- 1)))]])]"

definition backwards_env :: env where
  "backwards_env = demo_env\<lparr>json_loads := (\<lambda>s. Inr backwards_doc)\<rparr>"

text \<open>
  A document with a fragment that has its own times and one that has two sub-line records,
  the last without an \<^verbatim>\<open>end\<close>; and two lines of which the first holds a carriage return.
\<close>

definition mixed_doc :: json where
  "mixed_doc =
     JObj [(''fragments'',
       JArr [JObj [(''begin'', JInt 0), (''end'', JFloat (Finite 2.5))],
             JObj [(''lines'', JArr [JObj [(''begin'', JFloat (Finite 2.5)), (''end'', JInt 3)],
                                     JObj [(''begin'', JInt 3)]])]])]"

definition mixed_env :: env where
  "mixed_env = demo_env\<lparr>json_loads := (\<lambda>s. Inr mixed_doc)\<rparr>"

definition cr_lines :: "string list" where
  "cr_lines = [''la'' @ [CHR 0x0D] @ ''la'', ''tooi yume'']"

definition nested_fragment :: json where
  "nested_fragment =
     JObj [(''id'', JStr ''f000001''),
           (''lines'', JArr [JObj [(''begin'', JFloat (Finite 1.0)), (''end'', JFloat (Finite 1.2))],
                            JObj [(''begin'', JFloat (Finite 1.3)), (''end'', JFloat (Finite 2.0))]])]"

text \<open>
  More samples: the storage where the converted audio cannot be removed; the environment
  whose audio conversion and alignment children behave as given; and the one whose
  download raises.
\<close>

definition locked_world :: world where
  "locked_world = demo_world\<lparr>remove_error := [''/tmp/converted_7f3a.wav'' \<mapsto> ''[Errno 13] Permission denied'']\<rparr>"

definition tool_env :: "child \<Rightarrow> child \<Rightarrow> env" where
  "tool_env ffmpeg aeneas =
     demo_env\<lparr>spawn := (\<lambda>cmd w. (if hd cmd = ''ffmpeg'' then ffmpeg else aeneas,
                                  w\<lparr>files := (files w)(last cmd \<mapsto> ''out'')\<rparr>))\<rparr>"

definition offline_env :: env where
  "offline_env = demo_env\<lparr>urlretrieve := (\<lambda>url p w. Some (Some ''HTTP Error 404: Not Found'', w))\<rparr>"

text \<open>
  A machine for the startup check: the audio tool is absent, the speech tool exits with an
  error, the alignment module imports.
\<close>

definition broken_probes :: probes where
  "broken_probes =
     \<lparr>ffmpeg_probe = Fails FileNotFoundError ''No such file or directory'',
      espeak_probe = Exits 0.2 1 [] ''espeak-ng: error while loading shared libraries'',
      aeneas_import = None\<rparr>"

section \<open>Properties\<close>

subsection \<open>Basic facts\<close>

lemma and_then_Inr_iff:
  "and_then r f = Inr y \<longleftrightarrow> (\<exists>x. r = Inr x \<and> f x = Inr y)"
  by (cases r) (simp_all add: and_then_def)

lemma and_then_Inr [simp]: "and_then (Inr x) f = f x"
  by (simp add: and_then_def)

lemma and_then_Inl [simp]: "and_then (Inl e) f = Inl e"
  by (simp add: and_then_def)

lemma bit_length_le: "n < 2 ^ k \<Longrightarrow> bit_length n \<le> k"
proof (induction k arbitrary: n)
  case 0
  then show ?case by (simp add: bit_length.simps)
next
  case (Suc k)
  show ?case
  proof (cases "n = 0")
    case True
    then show ?thesis by (simp add: bit_length.simps)
  next
    case False
    from Suc.prems have "n div 2 < 2 ^ k" by simp
    then have "bit_length (n div 2) \<le> k" by (rule Suc.IH)
    with False show ?thesis by (subst bit_length.simps) simp
  qed
qed

lemma round_binary64_small [simp]: "n < 2 ^ 53 \<Longrightarrow> round_binary64 n = n"
  using bit_length_le[of n 53] by (simp add: round_binary64_def)

lemma py_index_Inr_iff: "py_index xs i = Inr x \<longleftrightarrow> i < length xs \<and> x = xs ! i"
  by (auto simp: py_index_def)

lemma py_len_iter: "py_len x = Inr n \<Longrightarrow> py_iter x = Inr items \<Longrightarrow> length items = n"
  by (cases x) auto

lemma upto_from_1: "map (\<lambda>j. int j + 1) [0..<n] = [1..int n]"
proof (induction n)
  case 0
  then show ?case by simp
next
  case (Suc n)
  have "[1..int (Suc n)] = [1..int n] @ [int n + 1]"
    using upto_rec2[of 1 "int (Suc n)"] by (simp add: add.commute)
  with Suc show ?case by simp
qed

subsection \<open>The loop of the reconciler\<close>

text \<open>
  When the loop returns, it has appended one result per fragment, in order: the result of
  the fragment at index \<open>idx + j\<close> carries that index plus one, the line at that index and
  the times \<open>fragment_times\<close> found for it.
\<close>

lemma results_loop_sound:
  "results_loop fs ly idx frs acc = Inr rs \<Longrightarrow>
     idx + length frs \<le> max idx (length ly) \<and>
     (\<exists>ts. length ts = length frs \<and>
        (\<forall>j < length frs. fragment_times fs (idx + j) (frs ! j) = Inr (ts ! j)) \<and>
        rs = acc @ map (\<lambda>j. \<lparr>line_index = int (idx + j) + 1, text' = ly ! (idx + j),
                              start = fst (ts ! j), end' = snd (ts ! j)\<rparr>) [0..<length frs])"
proof (induction frs arbitrary: idx acc)
  case Nil
  then show ?case by simp
next
  case (Cons fragment rest)
  from Cons.prems obtain t line where
    t: "fragment_times fs idx fragment = Inr t" and
    line: "py_index ly idx = Inr line" and
    rec: "results_loop fs ly (idx + 1) rest
            (acc @ [\<lparr>line_index = int idx + 1, text' = line, start = fst t, end' = snd t\<rparr>]) = Inr rs"
    by (auto simp: and_then_Inr_iff split: prod.splits)
  from line have idx: "idx < length ly" and line_eq: "line = ly ! idx"
    by (simp_all add: py_index_Inr_iff)
  from Cons.IH[OF rec] obtain ts where
    len: "idx + 1 + length rest \<le> max (idx + 1) (length ly)" and
    ts: "length ts = length rest"
        "\<forall>j < length rest. fragment_times fs (idx + 1 + j) (rest ! j) = Inr (ts ! j)" and
    rs: "rs = (acc @ [\<lparr>line_index = int idx + 1, text' = line, start = fst t, end' = snd t\<rparr>]) @
           map (\<lambda>j. \<lparr>line_index = int (idx + 1 + j) + 1, text' = ly ! (idx + 1 + j),
                      start = fst (ts ! j), end' = snd (ts ! j)\<rparr>) [0..<length rest]"
    by blast
  have "length (t # ts) = length (fragment # rest)" using ts by simp
  moreover have "\<forall>j < length (fragment # rest).
      fragment_times fs (idx + j) ((fragment # rest) ! j) = Inr ((t # ts) ! j)"
    using t ts(2) by (auto simp: nth_Cons split: nat.splits)
  moreover have "rs = acc @ map (\<lambda>j. \<lparr>line_index = int (idx + j) + 1, text' = ly ! (idx + j),
                              start = fst ((t # ts) ! j), end' = snd ((t # ts) ! j)\<rparr>)
                         [0..<length (fragment # rest)]"
  proof -
    have "[0..<length (fragment # rest)] = 0 # map Suc [0..<length rest]"
      by (simp add: upt_conv_Cons map_Suc_upt del: upt_Suc)
    then show ?thesis
      unfolding rs by (simp add: line_eq comp_def add.commute add.left_commute)
  qed
  moreover have "idx + length (fragment # rest) \<le> max idx (length ly)"
    using len idx by simp
  ultimately show ?case by blast
qed

lemma reconcile_Inr:
  assumes "reconcile fs data ly = Inr rs"
  obtains fragments items where
    "py_get data ''fragments'' (JArr []) = Inr fragments"
    "py_len fragments = Inr (length ly)"
    "py_iter fragments = Inr items"
    "length items = length ly"
    "results_loop fs ly 0 items [] = Inr rs"
proof -
  from assms obtain fragments n where
    f: "py_get data ''fragments'' (JArr []) = Inr fragments" and
    n: "py_len fragments = Inr n" and
    rest: "(if n \<noteq> length ly then Inl (HTTPException 500 (mismatch_msg n (length ly)))
            else and_then (py_iter fragments) (\<lambda>items. results_loop fs ly 0 items [])) = Inr rs"
    unfolding reconcile_def by (auto simp: and_then_Inr_iff)
  from rest have eq: "n = length ly" by (auto split: if_splits)
  with rest obtain items where
    it: "py_iter fragments = Inr items" and loop: "results_loop fs ly 0 items [] = Inr rs"
    by (auto simp: and_then_Inr_iff)
  from py_len_iter[OF n it] eq have "length items = length ly" by simp
  with f n eq it loop that show thesis by blast
qed

lemma reconcile_shape:
  assumes "reconcile fs data ly = Inr rs"
  shows "length rs = length ly" and "map line_index rs = [1..int (length ly)]"
    and "map text' rs = ly"
proof -
  from assms obtain fragments items where
    len: "length items = length ly" and loop: "results_loop fs ly 0 items [] = Inr rs"
    by (rule reconcile_Inr)
  from results_loop_sound[OF loop] len obtain ts where
    rs: "rs = map (\<lambda>j. \<lparr>line_index = int j + 1, text' = ly ! j,
                          start = fst (ts ! j), end' = snd (ts ! j)\<rparr>) [0..<length ly]"
    by auto
  show "length rs = length ly" by (simp add: rs)
  show "map line_index rs = [1..int (length ly)]"
    by (simp add: rs comp_def upto_from_1)
  show "map text' rs = ly"
    by (simp add: rs comp_def map_nth)
qed

lemma parse_Inr:
  "parse_aeneas_output env w p ly = Inr rs \<Longrightarrow>
     \<exists>content data. files w p = Some content \<and> json_loads env content = Inr data \<and>
        reconcile (float_str env) data ly = Inr rs"
  by (auto simp: parse_aeneas_output_def read_json_def split: sum.splits option.splits)

subsection \<open>The handler and its cleanup\<close>

lemma align_except_Inr: "align_except r = Inr rs \<Longrightarrow> r = Inr rs"
  by (erule align_except.elims) simp_all

lemma cleanup_never_raises: "fst (cleanup ps w) = None"
  by (induction ps arbitrary: w) (auto simp: try_remove_def split: sum.splits prod.splits)

lemma align_lyrics_eq:
  "align_lyrics env request w =
     map_option (\<lambda>(r, w1). (align_except r, snd (cleanup (temp_files env) w1))) (pipeline env request w)"
proof (cases "pipeline env request w")
  case None
  then show ?thesis by (simp add: align_lyrics_def)
next
  case (Some a)
  obtain r w1 where a: "a = (r, w1)" by (cases a)
  obtain x w2 where c: "cleanup (temp_files env) w1 = (x, w2)" by (cases "cleanup (temp_files env) w1")
  with cleanup_never_raises[of "temp_files env" w1] have "x = None" by simp
  with Some a c show ?thesis by (simp add: align_lyrics_def)
qed

lemma align_lyrics_outcome:
  "map_option fst (align_lyrics env request w) =
     map_option (\<lambda>p. align_except (fst p)) (pipeline env request w)"
  by (cases "pipeline env request w") (auto simp: align_lyrics_eq)

lemma pipeline_Inr:
  "pipeline env request w = Some (Inr rs, w1) \<Longrightarrow>
     parse_aeneas_output env w1 (alignment_output env) (lyrics request) = Inr rs"
  by (auto simp: pipeline_def split: option.splits prod.splits sum.splits)

subsection \<open>The sample request, stage by stage\<close>

lemma demo_env_fields:
  "uuid4 demo_env = ''7f3a''"
  "sys_executable demo_env = ''/usr/bin/python3''"
  "urlretrieve demo_env = (\<lambda>url p w. Some (None, w\<lparr>files := (files w)(p \<mapsto> ''audio'')\<rparr>))"
  "spawn demo_env = (\<lambda>cmd w. (Exits 1 0 [] [], w\<lparr>files := (files w)(last cmd \<mapsto> ''out'')\<rparr>))"
  "json_loads demo_env = (\<lambda>s. if s = ''out'' then Inr demo_doc else Inl ''Expecting value'')"
  by (simp_all add: demo_env_def)

lemma demo_paths:
  "downloaded_audio demo_env = ''/tmp/audio_7f3a''"
  "converted_audio demo_env = ''/tmp/converted_7f3a.wav''"
  "lyrics_file demo_env = ''/tmp/lyrics_7f3a.txt''"
  "alignment_output demo_env = ''/tmp/alignment_7f3a.json''"
  by (simp_all add: downloaded_audio_def converted_audio_def lyrics_file_def alignment_output_def
      demo_env_fields)

lemma demo_reconcile:
  "reconcile fs demo_doc (lyrics demo_request) =
     Inr [\<lparr>line_index = 1, text' = '' haru no uta '', start = Finite 0, end' = Finite 2.5\<rparr>,
          \<lparr>line_index = 2, text' = ''tooi yume'', start = Finite 2.5, end' = Finite 5\<rparr>]"
  by (simp add: reconcile_def demo_doc_def demo_request_def fragment_times_def py_index_def)

lemma demo_pipeline:
  "map_option fst (pipeline demo_env demo_request demo_world) =
     Some (Inr [\<lparr>line_index = 1, text' = '' haru no uta '', start = Finite 0, end' = Finite 2.5\<rparr>,
                \<lparr>line_index = 2, text' = ''tooi yume'', start = Finite 2.5, end' = Finite 5\<rparr>])"
proof -
  have "lyrics demo_request \<noteq> []" by (simp add: demo_request_def)
  then show ?thesis
    by (simp add: pipeline_def download_audio_def convert_audio_to_wav_def run_child_def
        write_lyrics_file_def write_file_def run_aeneas_alignment_def parse_aeneas_output_def
        read_json_def demo_reconcile ffmpeg_cmd_def aeneas_cmd_def downloaded_audio_def
        converted_audio_def lyrics_file_def alignment_output_def demo_env_fields demo_world_def)
qed

subsection \<open>Claim C1\<close>

text \<open>
  Claim C1. Whenever the handler answers a request of N lines with results, the response
  holds exactly N results in input order: their \<open>line_index\<close> values are 1, ..., N, and
  the \<open>text\<close> of the result at each position is the input line at that position, as it was
  sent (the blanks that the lyrics file drops are kept).
\<close>

theorem response_matches_lines:
  assumes "map_option fst (align_lyrics env request w) = Some (Inr results)"
  shows "length results = length (lyrics request) \<and>
         map line_index results = [1..int (length (lyrics request))] \<and>
         map text' results = lyrics request"
proof -
  from assms obtain r0 w1 where
    p: "pipeline env request w = Some (r0, w1)" and r: "align_except r0 = Inr results"
    by (auto simp: align_lyrics_outcome)
  from r have "r0 = Inr results" by (rule align_except_Inr)
  with p have "parse_aeneas_output env w1 (alignment_output env) (lyrics request) = Inr results"
    by (simp add: pipeline_Inr)
  then obtain data where "reconcile (float_str env) data (lyrics request) = Inr results"
    using parse_Inr by blast
  then show ?thesis
    using reconcile_shape by blast
qed

theorem response_matches_lines_witness:
  "map_option fst (align_lyrics demo_env demo_request demo_world) =
     Some (Inr [\<lparr>line_index = 1, text' = '' haru no uta '', start = Finite 0, end' = Finite 2.5\<rparr>,
                \<lparr>line_index = 2, text' = ''tooi yume'', start = Finite 2.5, end' = Finite 5\<rparr>]) \<and>
   map text'
     [\<lparr>line_index = 1, text' = '' haru no uta '', start = Finite 0, end' = Finite 2.5\<rparr>,
      \<lparr>line_index = 2, text' = ''tooi yume'', start = Finite 2.5, end' = Finite 5\<rparr>] =
     lyrics demo_request"
proof -
  have h: "map_option fst (align_lyrics demo_env demo_request demo_world) =
     Some (Inr [\<lparr>line_index = 1, text' = '' haru no uta '', start = Finite 0, end' = Finite 2.5\<rparr>,
                \<lparr>line_index = 2, text' = ''tooi yume'', start = Finite 2.5, end' = Finite 5\<rparr>])"
    using demo_pipeline
    by (cases "pipeline demo_env demo_request demo_world") (auto simp: align_lyrics_outcome)
  from response_matches_lines[OF h] have
    "map text'
       [\<lparr>line_index = 1, text' = '' haru no uta '', start = Finite 0, end' = Finite 2.5\<rparr>,
        \<lparr>line_index = 2, text' = ''tooi yume'', start = Finite 2.5, end' = Finite 5\<rparr>] =
     lyrics demo_request"
    by blast
  with h show ?thesis by (rule conjI)
qed

subsection \<open>The times of one fragment\<close>

lemma dict_key: "map_of kvs k = Some v \<Longrightarrow> k \<in> fst ` set kvs"
  by (metis map_of_SomeD fst_conv image_eqI)

lemma fragment_times_direct:
  "map_of kvs ''begin'' = Some b \<Longrightarrow> map_of kvs ''end'' = Some e \<Longrightarrow>
     fragment_times fs idx (JObj kvs) =
       and_then (py_float fs b) (\<lambda>x. and_then (py_float fs e) (\<lambda>y. Inr (x, y)))"
  by (simp add: fragment_times_def dict_key)

lemma fragment_times_nested:
  "\<not> (''begin'' \<in> fst ` set kvs \<and> ''end'' \<in> fst ` set kvs) \<Longrightarrow>
     fragment_times fs idx (JObj kvs) =
       and_then (py_get (JObj kvs) ''lines'' (JArr [])) (\<lambda>lines.
       if \<not> truthy lines then
         Inl (HTTPException 500 (''Fragment '' @ str_nat (idx + 1) @ '' has no timing information''))
       else
         and_then (py_first lines) (\<lambda>first_line.
         and_then (py_last lines) (\<lambda>last_line.
         and_then (py_get first_line ''begin'' (JInt 0)) (\<lambda>b.
         and_then (py_float fs b) (\<lambda>start.
         and_then (py_get last_line ''end'' (JInt 0)) (\<lambda>e.
         and_then (py_float fs e) (\<lambda>end.
         Inr (start, end))))))))"
  by (auto simp: fragment_times_def)

lemma parse_mismatch:
  assumes "files w p = Some content" "json_loads env content = Inr data"
    "py_get data ''fragments'' (JArr []) = Inr fragments" "py_len fragments = Inr n"
    "n \<noteq> length ly"
  shows "parse_aeneas_output env w p ly = Inl (HTTPException 500 (mismatch_msg n (length ly)))"
  using assms by (simp add: parse_aeneas_output_def read_json_def reconcile_def)

subsection \<open>Claim C2\<close>

text \<open>
  Claim C2. When the document read from the output of the alignment tool has a fragment
  sequence whose length differs from the number of lines, the reconciler raises an
  \<open>HTTPException\<close> with status 500 that names both counts, and returns no result. It
  returns results only for a document whose fragment sequence has exactly as many items as
  there are lines, and then one result per line.
\<close>

theorem count_mismatch_is_fatal:
  "(files w p = Some content \<and> json_loads env content = Inr data \<and>
    py_get data ''fragments'' (JArr []) = Inr fragments \<and> py_len fragments = Inr n \<and>
    n \<noteq> length ly \<longrightarrow>
      parse_aeneas_output env w p ly = Inl (HTTPException 500 (mismatch_msg n (length ly)))) \<and>
   (parse_aeneas_output env w p ly = Inr rs \<longrightarrow>
      (\<exists>content data fragments.
         files w p = Some content \<and> json_loads env content = Inr data \<and>
         py_get data ''fragments'' (JArr []) = Inr fragments \<and>
         py_len fragments = Inr (length ly) \<and> length rs = length ly))"
proof (intro conjI impI)
  assume "files w p = Some content \<and> json_loads env content = Inr data \<and>
    py_get data ''fragments'' (JArr []) = Inr fragments \<and> py_len fragments = Inr n \<and>
    n \<noteq> length ly"
  then show "parse_aeneas_output env w p ly = Inl (HTTPException 500 (mismatch_msg n (length ly)))"
    by (simp add: parse_mismatch)
next
  assume "parse_aeneas_output env w p ly = Inr rs"
  then obtain content data where
    c: "files w p = Some content" "json_loads env content = Inr data" and
    r: "reconcile (float_str env) data ly = Inr rs"
    using parse_Inr by blast
  from r obtain fragments where
    "py_get data ''fragments'' (JArr []) = Inr fragments" "py_len fragments = Inr (length ly)"
    by (rule reconcile_Inr)
  moreover from r have "length rs = length ly" by (rule reconcile_shape)
  ultimately show "\<exists>content data fragments.
         files w p = Some content \<and> json_loads env content = Inr data \<and>
         py_get data ''fragments'' (JArr []) = Inr fragments \<and>
         py_len fragments = Inr (length ly) \<and> length rs = length ly"
    using c by blast
qed

lemma str_nat_digit: "n < 10 \<Longrightarrow> str_nat n = [digit_char n]"
  by (simp add: str_nat.simps)

lemma demo_output_read:
  "files demo_output_world ''/tmp/alignment_7f3a.json'' = Some ''out''"
  "json_loads demo_env ''out'' = Inr demo_doc"
  "json_loads backwards_env ''out'' = Inr backwards_doc"
  by (simp_all add: demo_output_world_def demo_env_def backwards_env_def)

theorem count_mismatch_is_fatal_witness:
  "parse_aeneas_output demo_env demo_output_world ''/tmp/alignment_7f3a.json'' [''la la la''] =
     Inl (HTTPException 500 ''Alignment mismatch: 2 fragments for 1 lyrics'') \<and>
   parse_aeneas_output demo_env demo_output_world ''/tmp/alignment_7f3a.json'' (lyrics demo_request) =
     Inr [\<lparr>line_index = 1, text' = '' haru no uta '', start = Finite 0, end' = Finite 2.5\<rparr>,
          \<lparr>line_index = 2, text' = ''tooi yume'', start = Finite 2.5, end' = Finite 5\<rparr>] \<and>
   py_len (JArr [JObj [(''begin'', JFloat (Finite 0)), (''end'', JFloat (Finite 2.5))],
                 JObj [(''begin'', JFloat (Finite 2.5)), (''end'', JInt 5)]]) =
     Inr (length (lyrics demo_request))"
proof -
  let ?frs = "JArr [JObj [(''begin'', JFloat (Finite 0)), (''end'', JFloat (Finite 2.5))],
                    JObj [(''begin'', JFloat (Finite 2.5)), (''end'', JInt 5)]]"
  let ?rs = "[\<lparr>line_index = 1, text' = '' haru no uta '', start = Finite 0, end' = Finite 2.5\<rparr>,
          \<lparr>line_index = 2, text' = ''tooi yume'', start = Finite 2.5, end' = Finite 5\<rparr>]"
  have g: "py_get demo_doc ''fragments'' (JArr []) = Inr ?frs" by (simp add: demo_doc_def)
  have n: "py_len ?frs = Inr 2" by simp
  have m: "mismatch_msg 2 (length [''la la la'']) = ''Alignment mismatch: 2 fragments for 1 lyrics''"
    by (simp add: mismatch_msg_def str_nat_digit digit_char_def)
  have ok: "parse_aeneas_output demo_env demo_output_world ''/tmp/alignment_7f3a.json''
              (lyrics demo_request) = Inr ?rs"
    by (simp add: parse_aeneas_output_def read_json_def demo_output_read demo_reconcile)
  note inst = count_mismatch_is_fatal[of demo_output_world "''/tmp/alignment_7f3a.json''" "''out''"
      demo_env demo_doc ?frs 2]
  have bad: "parse_aeneas_output demo_env demo_output_world ''/tmp/alignment_7f3a.json'' [''la la la''] =
     Inl (HTTPException 500 ''Alignment mismatch: 2 fragments for 1 lyrics'')"
    using inst[of "[''la la la'']" ?rs] demo_output_read g n m by simp
  from inst[of "lyrics demo_request" ?rs] ok obtain fragments where
    f: "py_get demo_doc ''fragments'' (JArr []) = Inr fragments"
       "py_len fragments = Inr (length (lyrics demo_request))"
    using demo_output_read by auto
  from f(1) g have "fragments = ?frs" by simp
  with f(2) have "py_len ?frs = Inr (length (lyrics demo_request))" by simp
  with bad ok show ?thesis by blast
qed

lemma reconcile_times:
  assumes "reconcile fs data ly = Inr rs"
  obtains fragments items where
    "py_get data ''fragments'' (JArr []) = Inr fragments"
    "py_iter fragments = Inr items" "length items = length rs"
    "\<forall>j < length rs. fragment_times fs j (items ! j) = Inr (start (rs ! j), end' (rs ! j))"
proof -
  from assms obtain fragments items where
    f: "py_get data ''fragments'' (JArr []) = Inr fragments" "py_iter fragments = Inr items" and
    len: "length items = length ly" and loop: "results_loop fs ly 0 items [] = Inr rs"
    by (rule reconcile_Inr)
  from results_loop_sound[OF loop] obtain ts where
    ts: "length ts = length items"
        "\<forall>j < length items. fragment_times fs j (items ! j) = Inr (ts ! j)" and
    rs: "rs = map (\<lambda>j. \<lparr>line_index = int j + 1, text' = ly ! j,
                          start = fst (ts ! j), end' = snd (ts ! j)\<rparr>) [0..<length items]"
    by auto
  have "length items = length rs" by (simp add: rs)
  moreover have "\<forall>j < length rs. fragment_times fs j (items ! j) = Inr (start (rs ! j), end' (rs ! j))"
    using ts(2) by (simp add: rs)
  ultimately show thesis using f that by blast
qed

subsection \<open>Claim C3\<close>

text \<open>
  Claim C3, as stated, fails: the reconciler copies the times of the alignment tool without
  a check. A document whose first fragment ends before it begins and whose second fragment
  has negative times is reconciled into results with \<open>end < start\<close> and \<open>start < 0\<close>.
\<close>

theorem times_unchecked_counterexample:
  "parse_aeneas_output backwards_env demo_output_world ''/tmp/alignment_7f3a.json''
       (lyrics demo_request) =
     Inr [\<lparr>line_index = 1, text' = '' haru no uta '', start = Finite 5, end' = Finite 2\<rparr>,
          \<lparr>line_index = 2, text' = ''tooi yume'', start = Finite (- 3), end' = Finite (- 1)\<rparr>] \<and>
   \<not> float_le (Finite 5) (Finite 2) \<and> \<not> float_le (Finite 0) (Finite (- 3))"
  by (simp add: parse_aeneas_output_def read_json_def demo_output_read reconcile_def
      backwards_doc_def demo_request_def fragment_times_def py_index_def)

lemma fragment_times_not_dict:
  "(\<forall>kvs. fragment \<noteq> JObj kvs) \<Longrightarrow> \<exists>err. fragment_times fs idx fragment = Inl err"
  by (cases fragment) (auto simp: fragment_times_def)

lemma key_present: "k \<in> fst ` set kvs \<Longrightarrow> \<exists>v. map_of kvs k = Some v"
  by (cases "map_of kvs k") (auto simp: map_of_eq_None_iff)

lemma nested_times_Inr:
  assumes nd: "\<not> (''begin'' \<in> fst ` set kvs \<and> ''end'' \<in> fst ` set kvs)"
    and t: "fragment_times fs idx (JObj kvs) = Inr (x, y)"
  obtains subs first lst where
    "map_of kvs ''lines'' = Some (JArr subs)" "subs \<noteq> []"
    "hd subs = JObj first" "last subs = JObj lst"
    "py_float fs (case map_of first ''begin'' of None \<Rightarrow> JInt 0 | Some b \<Rightarrow> b) = Inr x"
    "py_float fs (case map_of lst ''end'' of None \<Rightarrow> JInt 0 | Some e \<Rightarrow> e) = Inr y"
proof -
  define lines where "lines = (case map_of kvs ''lines'' of None \<Rightarrow> JArr [] | Some v \<Rightarrow> v)"
  have pg: "py_get (JObj kvs) ''lines'' (JArr []) = Inr lines" by (simp add: lines_def)
  from t have "(if \<not> truthy lines then
         Inl (HTTPException 500 (''Fragment '' @ str_nat (idx + 1) @ '' has no timing information''))
       else
         and_then (py_first lines) (\<lambda>first_line.
         and_then (py_last lines) (\<lambda>last_line.
         and_then (py_get first_line ''begin'' (JInt 0)) (\<lambda>b.
         and_then (py_float fs b) (\<lambda>start.
         and_then (py_get last_line ''end'' (JInt 0)) (\<lambda>e.
         and_then (py_float fs e) (\<lambda>end.
         Inr (start, end)))))))) = Inr (x, y)"
    by (simp only: fragment_times_nested[OF nd] pg and_then_Inr)
  then have tr: "truthy lines" and
    rest: "and_then (py_first lines) (\<lambda>first_line.
         and_then (py_last lines) (\<lambda>last_line.
         and_then (py_get first_line ''begin'' (JInt 0)) (\<lambda>b.
         and_then (py_float fs b) (\<lambda>start.
         and_then (py_get last_line ''end'' (JInt 0)) (\<lambda>e.
         and_then (py_float fs e) (\<lambda>end.
         Inr (start, end))))))) = Inr (x, y)"
    by (cases "truthy lines"; simp)+
  from rest obtain fl where fl: "py_first lines = Inr fl" and
    r1: "and_then (py_last lines) (\<lambda>last_line.
         and_then (py_get fl ''begin'' (JInt 0)) (\<lambda>b.
         and_then (py_float fs b) (\<lambda>start.
         and_then (py_get last_line ''end'' (JInt 0)) (\<lambda>e.
         and_then (py_float fs e) (\<lambda>end.
         Inr (start, end)))))) = Inr (x, y)"
    unfolding and_then_Inr_iff[of "py_first lines"] by blast
  from r1 obtain ll where ll: "py_last lines = Inr ll" and
    r2: "and_then (py_get fl ''begin'' (JInt 0)) (\<lambda>b.
         and_then (py_float fs b) (\<lambda>start.
         and_then (py_get ll ''end'' (JInt 0)) (\<lambda>e.
         and_then (py_float fs e) (\<lambda>end.
         Inr (start, end))))) = Inr (x, y)"
    unfolding and_then_Inr_iff[of "py_last lines"] by blast
  from r2 obtain b where b: "py_get fl ''begin'' (JInt 0) = Inr b" and
    r3: "and_then (py_float fs b) (\<lambda>start.
         and_then (py_get ll ''end'' (JInt 0)) (\<lambda>e.
         and_then (py_float fs e) (\<lambda>end.
         Inr (start, end)))) = Inr (x, y)"
    unfolding and_then_Inr_iff[of "py_get fl ''begin'' (JInt 0)"] by blast
  from r3 obtain s where s: "py_float fs b = Inr s" and
    r4: "and_then (py_get ll ''end'' (JInt 0)) (\<lambda>e.
         and_then (py_float fs e) (\<lambda>end.
         Inr (s, end))) = Inr (x, y)"
    unfolding and_then_Inr_iff[of "py_float fs b"] by blast
  from r4 obtain e where e: "py_get ll ''end'' (JInt 0) = Inr e" and
    r5: "and_then (py_float fs e) (\<lambda>end. Inr (s, end)) = Inr (x, y)"
    unfolding and_then_Inr_iff[of "py_get ll ''end'' (JInt 0)"] by blast
  from r5 obtain u where u: "py_float fs e = Inr u" and r6: "(Inr (s, u) :: exc + pyfloat \<times> pyfloat) = Inr (x, y)"
    unfolding and_then_Inr_iff[of "py_float fs e"] by blast
  from r6 s u have x: "py_float fs b = Inr x" and y: "py_float fs e = Inr y" by simp_all
  from b obtain first where first: "fl = JObj first" by (cases fl) simp_all
  from e obtain lst where lst: "ll = JObj lst" by (cases ll) simp_all
  have "\<exists>subs. lines = JArr subs"
  proof (cases lines)
    case (JStr str)
    with fl first show ?thesis by (cases "code_points str") simp_all
  qed (use fl first in simp_all)
  then obtain subs where subs: "lines = JArr subs" by blast
  with tr have ne: "subs \<noteq> []" by simp
  from fl subs ne first have h: "hd subs = JObj first" by (cases subs) simp_all
  from ll subs ne lst have l: "last subs = JObj lst" by (cases subs) simp_all
  from subs ne have m: "map_of kvs ''lines'' = Some (JArr subs)"
    unfolding lines_def by (cases "map_of kvs ''lines''") simp_all
  from b first x have pb:
    "py_float fs (case map_of first ''begin'' of None \<Rightarrow> JInt 0 | Some b \<Rightarrow> b) = Inr x"
    by simp
  from e lst y have pe:
    "py_float fs (case map_of lst ''end'' of None \<Rightarrow> JInt 0 | Some e \<Rightarrow> e) = Inr y"
    by simp
  show thesis by (rule that[OF m ne h l pb pe])
qed

lemma fragment_times_Inr_cases:
  assumes t: "fragment_times fs idx fragment = Inr (x, y)"
  shows "\<exists>kvs. fragment = JObj kvs \<and>
     ((\<exists>b e. map_of kvs ''begin'' = Some b \<and> map_of kvs ''end'' = Some e \<and>
          py_float fs b = Inr x \<and> py_float fs e = Inr y) \<or>
      (\<exists>subs first lst.
          (map_of kvs ''begin'' = None \<or> map_of kvs ''end'' = None) \<and>
          map_of kvs ''lines'' = Some (JArr subs) \<and> subs \<noteq> [] \<and>
          hd subs = JObj first \<and> last subs = JObj lst \<and>
          py_float fs (case map_of first ''begin'' of None \<Rightarrow> JInt 0 | Some b \<Rightarrow> b) = Inr x \<and>
          py_float fs (case map_of lst ''end'' of None \<Rightarrow> JInt 0 | Some e \<Rightarrow> e) = Inr y))"
proof -
  have "\<exists>kvs. fragment = JObj kvs"
  proof (rule ccontr)
    assume "\<not> (\<exists>kvs. fragment = JObj kvs)"
    then have "\<forall>kvs. fragment \<noteq> JObj kvs" by simp
    then have "\<exists>err. fragment_times fs idx fragment = Inl err"
      by (rule fragment_times_not_dict)
    then obtain err where "fragment_times fs idx fragment = Inl err" ..
    with t have "(Inr (x, y) :: exc + pyfloat \<times> pyfloat) = Inl err" by (simp only:)
    then show False by simp
  qed
  then obtain kvs where f: "fragment = JObj kvs" ..
  from t have t': "fragment_times fs idx (JObj kvs) = Inr (x, y)" unfolding f .
  show ?thesis
  proof (cases "''begin'' \<in> fst ` set kvs \<and> ''end'' \<in> fst ` set kvs")
    case True
    from True have m1: "''begin'' \<in> fst ` set kvs" by (rule conjunct1)
    from True have m2: "''end'' \<in> fst ` set kvs" by (rule conjunct2)
    from key_present[OF m1] obtain b where b: "map_of kvs ''begin'' = Some b" ..
    from key_present[OF m2] obtain e where e: "map_of kvs ''end'' = Some e" ..
    from t' have "and_then (py_float fs b) (\<lambda>x. and_then (py_float fs e) (\<lambda>y. Inr (x, y))) = Inr (x, y)"
      by (simp only: fragment_times_direct[OF b e])
    then have "\<exists>x'. py_float fs b = Inr x' \<and> (\<exists>y'. py_float fs e = Inr y' \<and>
        (Inr (x', y') :: exc + pyfloat \<times> pyfloat) = Inr (x, y))"
      by (simp only: and_then_Inr_iff)
    then obtain x' y' where "py_float fs b = Inr x'" "py_float fs e = Inr y'"
        "(Inr (x', y') :: exc + pyfloat \<times> pyfloat) = Inr (x, y)"
      by (elim exE conjE)
    then have pfx: "py_float fs b = Inr x" and pfy: "py_float fs e = Inr y" by simp_all
    show ?thesis
      by (rule exI[of _ kvs], rule conjI[OF f], rule disjI1, rule exI[of _ b], rule exI[of _ e])
         (intro conjI b e pfx pfy)
  next
    case False
    have none: "map_of kvs ''begin'' = None \<or> map_of kvs ''end'' = None"
    proof (cases "''begin'' \<in> fst ` set kvs")
      case True
      with False have "''end'' \<notin> fst ` set kvs" by simp
      then have "map_of kvs ''end'' = None" by (rule map_of_eq_None_iff[THEN iffD2])
      then show ?thesis by (rule disjI2)
    next
      case False
      then have "map_of kvs ''begin'' = None" by (rule map_of_eq_None_iff[THEN iffD2])
      then show ?thesis by (rule disjI1)
    qed
    from False t' obtain subs first lst where
      n: "map_of kvs ''lines'' = Some (JArr subs)" "subs \<noteq> []"
         "hd subs = JObj first" "last subs = JObj lst"
         "py_float fs (case map_of first ''begin'' of None \<Rightarrow> JInt 0 | Some b \<Rightarrow> b) = Inr x"
         "py_float fs (case map_of lst ''end'' of None \<Rightarrow> JInt 0 | Some e \<Rightarrow> e) = Inr y"
      by (rule nested_times_Inr)
    show ?thesis
      by (rule exI[of _ kvs], rule conjI[OF f], rule disjI2, rule exI[of _ subs],
          rule exI[of _ first], rule exI[of _ lst])
         (intro conjI none n)
  qed
qed

text \<open>
  Claim C3, amended. Every result of a successful reconciliation stands for the fragment at
  its position in the fragment list of the document, and that fragment is a dictionary.
  When the fragment has a \<^verbatim>\<open>begin\<close> and an \<^verbatim>\<open>end\<close> of its own, \<open>start\<close> and \<open>end\<close> are the
  \<^verbatim>\<open>float()\<close> of these two values. Otherwise the fragment has a non-empty list \<^verbatim>\<open>lines\<close>
  whose first and last elements are dictionaries, \<open>start\<close> is the \<^verbatim>\<open>float()\<close> of the
  \<^verbatim>\<open>begin\<close> of the first and \<open>end\<close> the \<^verbatim>\<open>float()\<close> of the \<^verbatim>\<open>end\<close> of the last, and \<open>0\<close> is
  taken where that key is absent. Nothing else is done to the times: they are compared
  neither with \<open>0\<close> nor with each other.
\<close>

theorem times_are_the_engines:
  assumes "parse_aeneas_output env w p ly = Inr rs"
  shows "\<exists>content doc frs.
           files w p = Some content \<and> json_loads env content = Inr (JObj doc) \<and>
           py_iter (case map_of doc ''fragments'' of None \<Rightarrow> JArr [] | Some v \<Rightarrow> v) = Inr frs \<and>
           length frs = length rs \<and>
           (\<forall>j < length rs. \<exists>kvs. frs ! j = JObj kvs \<and>
              ((\<exists>b e. map_of kvs ''begin'' = Some b \<and> map_of kvs ''end'' = Some e \<and>
                   py_float (float_str env) b = Inr (start (rs ! j)) \<and>
                   py_float (float_str env) e = Inr (end' (rs ! j))) \<or>
               (\<exists>subs first lst.
                   (map_of kvs ''begin'' = None \<or> map_of kvs ''end'' = None) \<and>
                   map_of kvs ''lines'' = Some (JArr subs) \<and> subs \<noteq> [] \<and>
                   hd subs = JObj first \<and> last subs = JObj lst \<and>
                   py_float (float_str env)
                     (case map_of first ''begin'' of None \<Rightarrow> JInt 0 | Some b \<Rightarrow> b) =
                     Inr (start (rs ! j)) \<and>
                   py_float (float_str env)
                     (case map_of lst ''end'' of None \<Rightarrow> JInt 0 | Some e \<Rightarrow> e) =
                     Inr (end' (rs ! j)))))"
proof -
  from assms obtain content data where
    c: "files w p = Some content" "json_loads env content = Inr data" and
    r: "reconcile (float_str env) data ly = Inr rs"
    using parse_Inr by blast
  from r obtain fragments frs where
    f: "py_get data ''fragments'' (JArr []) = Inr fragments" and
    it: "py_iter fragments = Inr frs" "length frs = length rs" and
    t: "\<forall>j < length rs. fragment_times (float_str env) j (frs ! j) = Inr (start (rs ! j), end' (rs ! j))"
    by (rule reconcile_times)
  from f obtain doc where d: "data = JObj doc"
    by (cases data) simp_all
  with f have fr: "fragments = (case map_of doc ''fragments'' of None \<Rightarrow> JArr [] | Some v \<Rightarrow> v)"
    by simp
  from c(2) d have c2: "json_loads env content = Inr (JObj doc)" by simp
  from it(1) fr have it1:
    "py_iter (case map_of doc ''fragments'' of None \<Rightarrow> JArr [] | Some v \<Rightarrow> v) = Inr frs" by simp
  show ?thesis
  proof (rule exI[of _ content], rule exI[of _ doc], rule exI[of _ frs], intro conjI allI impI)
    show "files w p = Some content" by (rule c(1))
    show "json_loads env content = Inr (JObj doc)" by (rule c2)
    show "py_iter (case map_of doc ''fragments'' of None \<Rightarrow> JArr [] | Some v \<Rightarrow> v) = Inr frs"
      by (rule it1)
    show "length frs = length rs" by (rule it(2))
  next
    fix j
    assume "j < length rs"
    with t have "fragment_times (float_str env) j (frs ! j) = Inr (start (rs ! j), end' (rs ! j))"
      by simp
    then show "\<exists>kvs. frs ! j = JObj kvs \<and>
              ((\<exists>b e. map_of kvs ''begin'' = Some b \<and> map_of kvs ''end'' = Some e \<and>
                   py_float (float_str env) b = Inr (start (rs ! j)) \<and>
                   py_float (float_str env) e = Inr (end' (rs ! j))) \<or>
               (\<exists>subs first lst.
                   (map_of kvs ''begin'' = None \<or> map_of kvs ''end'' = None) \<and>
                   map_of kvs ''lines'' = Some (JArr subs) \<and> subs \<noteq> [] \<and>
                   hd subs = JObj first \<and> last subs = JObj lst \<and>
                   py_float (float_str env)
                     (case map_of first ''begin'' of None \<Rightarrow> JInt 0 | Some b \<Rightarrow> b) =
                     Inr (start (rs ! j)) \<and>
                   py_float (float_str env)
                     (case map_of lst ''end'' of None \<Rightarrow> JInt 0 | Some e \<Rightarrow> e) =
                     Inr (end' (rs ! j))))"
      by (rule fragment_times_Inr_cases)
  qed
qed


lemma mixed_read: "json_loads mixed_env ''out'' = Inr mixed_doc"
  by (simp add: mixed_env_def)

theorem times_are_the_engines_witness:
  "parse_aeneas_output mixed_env demo_output_world ''/tmp/alignment_7f3a.json'' (lyrics demo_request) =
     Inr [\<lparr>line_index = 1, text' = '' haru no uta '', start = Finite 0, end' = Finite 2.5\<rparr>,
          \<lparr>line_index = 2, text' = ''tooi yume'', start = Finite 2.5, end' = Finite 0\<rparr>] \<and>
   py_float (float_str mixed_env) (JInt 0) = Inr (Finite 0) \<and>
   py_float (float_str mixed_env) (JFloat (Finite 2.5)) = Inr (Finite 2.5)"
proof -
  let ?rs = "[\<lparr>line_index = 1, text' = '' haru no uta '', start = Finite 0, end' = Finite 2.5\<rparr>,
          \<lparr>line_index = 2, text' = ''tooi yume'', start = Finite 2.5, end' = Finite 0\<rparr>]"
  let ?k0 = "[(''begin'', JInt 0), (''end'', JFloat (Finite 2.5))]"
  let ?subs = "[JObj [(''begin'', JFloat (Finite 2.5)), (''end'', JInt 3)], JObj [(''begin'', JInt 3)]]"
  let ?k1 = "[(''lines'', JArr ?subs)]"
  have ok: "parse_aeneas_output mixed_env demo_output_world ''/tmp/alignment_7f3a.json''
              (lyrics demo_request) = Inr ?rs"
    by (simp add: parse_aeneas_output_def read_json_def demo_output_read mixed_read reconcile_def
        mixed_doc_def demo_request_def fragment_times_def py_index_def)
  from times_are_the_engines[OF ok] obtain content doc frs where
    c1: "files demo_output_world ''/tmp/alignment_7f3a.json'' = Some content" and
    c2: "json_loads mixed_env content = Inr (JObj doc)" and
    it: "py_iter (case map_of doc ''fragments'' of None \<Rightarrow> JArr [] | Some v \<Rightarrow> v) = Inr frs" and
    each: "\<forall>j < length ?rs. \<exists>kvs. frs ! j = JObj kvs \<and>
              ((\<exists>b e. map_of kvs ''begin'' = Some b \<and> map_of kvs ''end'' = Some e \<and>
                   py_float (float_str mixed_env) b = Inr (start (?rs ! j)) \<and>
                   py_float (float_str mixed_env) e = Inr (end' (?rs ! j))) \<or>
               (\<exists>subs first lst.
                   (map_of kvs ''begin'' = None \<or> map_of kvs ''end'' = None) \<and>
                   map_of kvs ''lines'' = Some (JArr subs) \<and> subs \<noteq> [] \<and>
                   hd subs = JObj first \<and> last subs = JObj lst \<and>
                   py_float (float_str mixed_env)
                     (case map_of first ''begin'' of None \<Rightarrow> JInt 0 | Some b \<Rightarrow> b) =
                     Inr (start (?rs ! j)) \<and>
                   py_float (float_str mixed_env)
                     (case map_of lst ''end'' of None \<Rightarrow> JInt 0 | Some e \<Rightarrow> e) =
                     Inr (end' (?rs ! j))))"
    by (elim exE conjE)
  from c1 have "content = ''out''" by (simp add: demo_output_read)
  with c2 have "JObj doc = mixed_doc" by (simp add: mixed_read)
  then have "doc = [(''fragments'', JArr [JObj ?k0, JObj ?k1])]"
    by (simp add: mixed_doc_def)
  with it have frs: "frs = [JObj ?k0, JObj ?k1]" by auto
  from each[rule_format, of 0]
  have a: "py_float (float_str mixed_env) (JInt 0) = Inr (Finite 0)"
    unfolding frs by auto
  from each[rule_format, of 1]
  have b: "py_float (float_str mixed_env) (JFloat (Finite 2.5)) = Inr (Finite 2.5)"
    unfolding frs by auto
  from ok a b show ?thesis by (intro conjI)
qed

subsection \<open>Claim C5\<close>

lemma nested_fallback:
  assumes nd: "\<not> (''begin'' \<in> fst ` set kvs \<and> ''end'' \<in> fst ` set kvs)"
    and l: "map_of kvs ''lines'' = Some (JArr subs)" and ne: "subs \<noteq> []"
    and f: "hd subs = JObj first" and la: "last subs = JObj lst"
    and b: "map_of first ''begin'' = Some b" and e: "map_of lst ''end'' = Some e"
  shows "fragment_times fs idx (JObj kvs) =
           and_then (py_float fs b) (\<lambda>x. and_then (py_float fs e) (\<lambda>y. Inr (x, y)))"
proof -
  from ne f have pf: "py_first (JArr subs) = Inr (JObj first)" by (cases subs) simp_all
  from ne la have pl: "py_last (JArr subs) = Inr (JObj lst)" by (cases subs) simp_all
  show ?thesis
    unfolding fragment_times_nested[OF nd] using l ne pf pl b e by simp
qed

lemma no_timing:
  assumes nd: "\<not> (''begin'' \<in> fst ` set kvs \<and> ''end'' \<in> fst ` set kvs)"
    and l: "map_of kvs ''lines'' = None \<or> map_of kvs ''lines'' = Some (JArr [])"
  shows "fragment_times fs idx (JObj kvs) =
           Inl (HTTPException 500 (''Fragment '' @ str_nat (idx + 1) @ '' has no timing information''))"
  unfolding fragment_times_nested[OF nd] using l by auto

lemma results_loop_all_timed:
  assumes "results_loop fs ly 0 frs [] = Inr rs" "j < length frs"
  shows "\<exists>t. fragment_times fs j (frs ! j) = Inr t"
  using results_loop_sound[OF assms(1)] assms(2) by auto

text \<open>
  Claim C5. For a fragment (a dict) that lacks a \<^verbatim>\<open>begin\<close> or an \<^verbatim>\<open>end\<close> of its own and
  carries a non-empty list of sub-line records under \<^verbatim>\<open>lines\<close>, the reconciler takes
  \<open>start\<close> from the \<^verbatim>\<open>begin\<close> of the first record and \<open>end\<close> from the \<^verbatim>\<open>end\<close> of the last.
  When the fragment has neither the pair nor a non-empty list, the reconciler raises an
  \<open>HTTPException\<close> with status 500 for it, and the reconciliation of any document that
  holds such a fragment returns no results.
\<close>

theorem nested_lines_give_times:
  "(\<not> (''begin'' \<in> fst ` set kvs \<and> ''end'' \<in> fst ` set kvs) \<and>
    map_of kvs ''lines'' = Some (JArr subs) \<and> subs \<noteq> [] \<and>
    hd subs = JObj first \<and> last subs = JObj lst \<and>
    map_of first ''begin'' = Some b \<and> map_of lst ''end'' = Some e \<and>
    py_float fs b = Inr x \<and> py_float fs e = Inr y \<longrightarrow>
      fragment_times fs idx (JObj kvs) = Inr (x, y)) \<and>
   (\<not> (''begin'' \<in> fst ` set kvs \<and> ''end'' \<in> fst ` set kvs) \<and>
    (map_of kvs ''lines'' = None \<or> map_of kvs ''lines'' = Some (JArr [])) \<longrightarrow>
      fragment_times fs idx (JObj kvs) =
        Inl (HTTPException 500 (''Fragment '' @ str_nat (idx + 1) @ '' has no timing information'')) \<and>
      (\<forall>frs ly. idx < length frs \<and> frs ! idx = JObj kvs \<longrightarrow>
         (\<exists>err. reconcile fs (JObj [(''fragments'', JArr frs)]) ly = Inl err)))"
proof (intro conjI impI allI)
  assume "\<not> (''begin'' \<in> fst ` set kvs \<and> ''end'' \<in> fst ` set kvs) \<and>
    map_of kvs ''lines'' = Some (JArr subs) \<and> subs \<noteq> [] \<and>
    hd subs = JObj first \<and> last subs = JObj lst \<and>
    map_of first ''begin'' = Some b \<and> map_of lst ''end'' = Some e \<and>
    py_float fs b = Inr x \<and> py_float fs e = Inr y"
  then show "fragment_times fs idx (JObj kvs) = Inr (x, y)"
    by (simp add: nested_fallback)
next
  assume a: "\<not> (''begin'' \<in> fst ` set kvs \<and> ''end'' \<in> fst ` set kvs) \<and>
    (map_of kvs ''lines'' = None \<or> map_of kvs ''lines'' = Some (JArr []))"
  then show nt: "fragment_times fs idx (JObj kvs) =
        Inl (HTTPException 500 (''Fragment '' @ str_nat (idx + 1) @ '' has no timing information''))"
    using no_timing by blast
  fix frs ly
  assume i: "idx < length frs \<and> frs ! idx = JObj kvs"
  show "\<exists>err. reconcile fs (JObj [(''fragments'', JArr frs)]) ly = Inl err"
  proof (cases "reconcile fs (JObj [(''fragments'', JArr frs)]) ly")
    case (Inl err)
    then show ?thesis by blast
  next
    case (Inr rs)
    then obtain fragments items where
      "py_get (JObj [(''fragments'', JArr frs)]) ''fragments'' (JArr []) = Inr fragments"
      "py_iter fragments = Inr items" "results_loop fs ly 0 items [] = Inr rs"
      by (rule reconcile_Inr)
    then have loop: "results_loop fs ly 0 frs [] = Inr rs" by auto
    from i have "idx < length frs" by simp
    from results_loop_all_timed[OF loop this] obtain t where
      "fragment_times fs idx (frs ! idx) = Inr t" by blast
    with i nt show ?thesis by simp
  qed
qed

lemma nested_fragment_parts:
  "nested_fragment = JObj [(''id'', JStr ''f000001''),
           (''lines'', JArr [JObj [(''begin'', JFloat (Finite 1.0)), (''end'', JFloat (Finite 1.2))],
                            JObj [(''begin'', JFloat (Finite 1.3)), (''end'', JFloat (Finite 2.0))]])]"
  by (simp add: nested_fragment_def)

theorem nested_lines_give_times_witness:
  "fragment_times (float_str demo_env) 0 nested_fragment = Inr (Finite 1.0, Finite 2.0) \<and>
   fragment_times (float_str demo_env) 0 (JObj [(''id'', JStr ''f000001''), (''lines'', JArr [])]) =
     Inl (HTTPException 500 ''Fragment 1 has no timing information'') \<and>
   (\<exists>err. reconcile (float_str demo_env)
      (JObj [(''fragments'', JArr [JObj [(''id'', JStr ''f000001''), (''lines'', JArr [])]])]) [''la''] =
        Inl err)"
proof -
  let ?first = "[(''begin'', JFloat (Finite 1.0)), (''end'', JFloat (Finite 1.2))]"
  let ?lst = "[(''begin'', JFloat (Finite 1.3)), (''end'', JFloat (Finite 2.0))]"
  let ?kvs = "[(''id'', JStr ''f000001''), (''lines'', JArr [JObj ?first, JObj ?lst])]"
  let ?empty = "[(''id'', JStr ''f000001''), (''lines'', JArr [])]"
  have "fragment_times (float_str demo_env) 0 (JObj ?kvs) = Inr (Finite 1.0, Finite 2.0)"
    using nested_lines_give_times[of ?kvs "[JObj ?first, JObj ?lst]" ?first ?lst
        "JFloat (Finite 1.0)" "JFloat (Finite 2.0)" "float_str demo_env" "Finite 1.0" "Finite 2.0" 0]
    by simp
  then have nested: "fragment_times (float_str demo_env) 0 nested_fragment = Inr (Finite 1.0, Finite 2.0)"
    by (simp add: nested_fragment_parts)
  note inst = nested_lines_give_times[of ?empty "[]" "[]" "[]" JNull JNull "float_str demo_env" NaN NaN 0]
  have m: "''Fragment '' @ str_nat (0 + 1) @ '' has no timing information'' =
           ''Fragment 1 has no timing information''"
    by (simp add: str_nat_digit digit_char_def)
  from inst have none: "fragment_times (float_str demo_env) 0 (JObj ?empty) =
     Inl (HTTPException 500 ''Fragment 1 has no timing information'')"
    unfolding m by simp
  from inst have "\<forall>frs ly. 0 < length frs \<and> frs ! 0 = JObj ?empty \<longrightarrow>
         (\<exists>err. reconcile (float_str demo_env) (JObj [(''fragments'', JArr frs)]) ly = Inl err)"
    by simp
  then have "\<exists>err. reconcile (float_str demo_env) (JObj [(''fragments'', JArr [JObj ?empty])]) [''la''] =
        Inl err"
    by simp
  with nested none show ?thesis by blast
qed

subsection \<open>Claim C6\<close>

lemma str_nat_nonempty: "str_nat n \<noteq> []"
  by (subst str_nat.simps) simp

lemma digit_char_inj: "m < 10 \<Longrightarrow> n < 10 \<Longrightarrow> digit_char m = digit_char n \<Longrightarrow> m = n"
proof -
  assume a: "m < 10" "n < 10" "digit_char m = digit_char n"
  have d: "distinct ''0123456789''" by simp
  have l: "length ''0123456789'' = 10" by simp
  from a show ?thesis
    unfolding digit_char_def using d l by (metis nth_eq_iff_index_eq)
qed

lemma str_nat_inj: "str_nat m = str_nat n \<Longrightarrow> m = n"
proof (induction m arbitrary: n rule: str_nat.induct)
  case (1 m)
  show ?case
  proof (cases "m < 10")
    case True
    then have m: "str_nat m = [digit_char m]" by (simp add: str_nat.simps)
    have "n < 10"
    proof (rule ccontr)
      assume "\<not> n < 10"
      then have "str_nat n = str_nat (n div 10) @ [digit_char (n mod 10)]"
        by (subst str_nat.simps) simp
      with m "1.prems" str_nat_nonempty[of "n div 10"] show False by simp
    qed
    then have "str_nat n = [digit_char n]" by (simp add: str_nat.simps)
    with m "1.prems" True \<open>n < 10\<close> show ?thesis by (simp add: digit_char_inj)
  next
    case False
    then have m: "str_nat m = str_nat (m div 10) @ [digit_char (m mod 10)]"
      by (subst str_nat.simps) simp
    have "\<not> n < 10"
    proof
      assume "n < 10"
      then have "str_nat n = [digit_char n]" by (simp add: str_nat.simps)
      with m "1.prems" str_nat_nonempty[of "m div 10"] show False by simp
    qed
    then have n: "str_nat n = str_nat (n div 10) @ [digit_char (n mod 10)]"
      by (subst str_nat.simps) simp
    from m n "1.prems" have e: "str_nat (m div 10) = str_nat (n div 10)"
      and d: "digit_char (m mod 10) = digit_char (n mod 10)" by simp_all
    from "1.IH"[OF False e] have "m div 10 = n div 10" .
    moreover from d have "m mod 10 = n mod 10" by (simp add: digit_char_inj)
    ultimately show ?thesis by (metis div_mult_mod_eq)
  qed
qed

lemma multiline_msg_inj: "multiline_msg i = multiline_msg j \<Longrightarrow> i = j"
  by (simp add: multiline_msg_def str_nat_inj)

lemma check_lines_first_newline:
  "i < length ls \<Longrightarrow> newline \<in> set (ls ! i) \<Longrightarrow> \<forall>j<i. newline \<notin> set (ls ! j) \<Longrightarrow>
     check_lines k (map JStr ls) = Some (Raised ValueError (multiline_msg (k + i)))"
proof (induction ls arbitrary: i k)
  case Nil
  then show ?case by simp
next
  case (Cons l ls)
  show ?case
  proof (cases i)
    case 0
    with Cons.prems show ?thesis by simp
  next
    case (Suc i')
    with Cons.prems have "newline \<notin> set l" by auto
    moreover from Suc Cons.prems have "i' < length ls" "newline \<in> set (ls ! i')"
      "\<forall>j<i'. newline \<notin> set (ls ! j)" by auto
    ultimately show ?thesis using Cons.IH[of i' "k + 1"] Suc by simp
  qed
qed

lemma check_lines_any:
  "JStr s \<in> set v \<Longrightarrow> newline \<in> set s \<Longrightarrow> check_lines k v \<noteq> None"
  by (induction k v rule: check_lines.induct) auto

lemma validate_fails_request:
  "validate_lyrics (JArr v) = Inl e \<Longrightarrow> new_AlignmentRequest http_url url (JArr v) = None"
  by (simp split: option.splits)

lemma cleanup_spawned: "spawned (snd (cleanup ps w)) = spawned w"
  by (induction ps arbitrary: w)
     (auto simp: try_remove_def os_remove_def split: sum.splits prod.splits option.splits if_splits)

lemma cr_reconcile:
  "reconcile fs demo_doc cr_lines =
     Inr [\<lparr>line_index = 1, text' = ''la'' @ [CHR 0x0D] @ ''la'', start = Finite 0, end' = Finite 2.5\<rparr>,
          \<lparr>line_index = 2, text' = ''tooi yume'', start = Finite 2.5, end' = Finite 5\<rparr>]"
  by (simp add: reconcile_def demo_doc_def cr_lines_def fragment_times_def py_index_def)

lemma cr_pipeline:
  "\<exists>w1. pipeline demo_env \<lparr>audio_url = ''https://x/a.mp3'', lyrics = cr_lines\<rparr> demo_world =
     Some (Inr [\<lparr>line_index = 1, text' = ''la'' @ [CHR 0x0D] @ ''la'', start = Finite 0, end' = Finite 2.5\<rparr>,
                \<lparr>line_index = 2, text' = ''tooi yume'', start = Finite 2.5, end' = Finite 5\<rparr>], w1) \<and>
     spawned w1 =
       [ffmpeg_cmd ''/tmp/audio_7f3a'' ''/tmp/converted_7f3a.wav'',
        aeneas_cmd demo_env ''/tmp/converted_7f3a.wav'' ''/tmp/lyrics_7f3a.txt''
          ''/tmp/alignment_7f3a.json'']"
proof -
  have "cr_lines \<noteq> []" by (simp add: cr_lines_def)
  then show ?thesis
    by (simp add: pipeline_def download_audio_def convert_audio_to_wav_def run_child_def
        write_lyrics_file_def write_file_def run_aeneas_alignment_def parse_aeneas_output_def
        read_json_def cr_reconcile demo_paths demo_env_fields demo_world_def)
       (simp add: ffmpeg_cmd_def aeneas_cmd_def demo_env_fields)
qed

text \<open>
  Claim C6, as stated, fails: the validator looks for the one character \<^verbatim>\<open>'\n'\<close>. A line that
  holds a carriage return, which also breaks a line, passes the validation; the request is
  made, both child processes are started and the route answers with the results.
\<close>

theorem carriage_return_accepted_counterexample:
  "CHR 0x0D \<in> set (cr_lines ! 0) \<and>
   validate_lyrics (JArr (map JStr cr_lines)) = Inr (JArr (map JStr cr_lines)) \<and>
   new_AlignmentRequest demo_http_url ''https://x/a.mp3'' (JArr (map JStr cr_lines)) =
     Some \<lparr>audio_url = ''https://x/a.mp3'', lyrics = cr_lines\<rparr> \<and>
   map_option fst
     (post_align demo_env demo_http_url ''https://x/a.mp3'' (JArr (map JStr cr_lines)) demo_world) =
     Some (Success
       [\<lparr>line_index = 1, text' = ''la'' @ [CHR 0x0D] @ ''la'', start = Finite 0, end' = Finite 2.5\<rparr>,
        \<lparr>line_index = 2, text' = ''tooi yume'', start = Finite 2.5, end' = Finite 5\<rparr>]) \<and>
   map_option (spawned \<circ> snd)
     (post_align demo_env demo_http_url ''https://x/a.mp3'' (JArr (map JStr cr_lines)) demo_world) =
     Some [ffmpeg_cmd ''/tmp/audio_7f3a'' ''/tmp/converted_7f3a.wav'',
           aeneas_cmd demo_env ''/tmp/converted_7f3a.wav'' ''/tmp/lyrics_7f3a.txt''
             ''/tmp/alignment_7f3a.json'']"
proof -
  let ?rs = "[\<lparr>line_index = 1, text' = ''la'' @ [CHR 0x0D] @ ''la'', start = Finite 0, end' = Finite 2.5\<rparr>,
        \<lparr>line_index = 2, text' = ''tooi yume'', start = Finite 2.5, end' = Finite 5\<rparr>]"
  have a: "CHR 0x0D \<in> set (cr_lines ! 0)" by (simp add: cr_lines_def)
  have b: "validate_lyrics (JArr (map JStr cr_lines)) = Inr (JArr (map JStr cr_lines))"
    by (simp add: cr_lines_def newline_def)
  have c: "new_AlignmentRequest demo_http_url ''https://x/a.mp3'' (JArr (map JStr cr_lines)) =
     Some \<lparr>audio_url = ''https://x/a.mp3'', lyrics = cr_lines\<rparr>"
    by (simp add: cr_lines_def newline_def demo_http_url_def)
  from cr_pipeline obtain w1 where
    p: "pipeline demo_env \<lparr>audio_url = ''https://x/a.mp3'', lyrics = cr_lines\<rparr> demo_world =
          Some (Inr ?rs, w1)" and
    s: "spawned w1 =
       [ffmpeg_cmd ''/tmp/audio_7f3a'' ''/tmp/converted_7f3a.wav'',
        aeneas_cmd demo_env ''/tmp/converted_7f3a.wav'' ''/tmp/lyrics_7f3a.txt''
          ''/tmp/alignment_7f3a.json'']"
    by blast
  have d: "post_align demo_env demo_http_url ''https://x/a.mp3'' (JArr (map JStr cr_lines)) demo_world =
     Some (Success ?rs, snd (cleanup (temp_files demo_env) w1))"
    by (simp only: post_align_def c option.case) (simp add: align_lyrics_eq p)
  from a b c show ?thesis
    by (simp add: d cleanup_spawned s)
qed

text \<open>
  Claim C6, amended. The validator rejects an empty list; it rejects a list of lines in which
  some line holds the newline character \<^verbatim>\<open>'\n'\<close>, with a message that holds the index of
  the first such line (and messages of different indices differ). A body with an empty
  list or with such a line makes no \<open>AlignmentRequest\<close>: the route answers 422 and leaves
  the world as it was, so the handler has not run and no child process was started.
\<close>

theorem invalid_lines_rejected:
  "validate_lyrics (JArr []) = Inl (Raised ValueError ''lyrics cannot be empty'') \<and>
   (i < length ls \<and> newline \<in> set (ls ! i) \<and> (\<forall>j<i. newline \<notin> set (ls ! j)) \<longrightarrow>
      validate_lyrics (JArr (map JStr ls)) = Inl (Raised ValueError (multiline_msg i))) \<and>
   (multiline_msg i = multiline_msg k \<longrightarrow> i = k) \<and>
   (v = [] \<or> (\<exists>s. JStr s \<in> set v \<and> newline \<in> set s) \<longrightarrow>
      (\<exists>e. validate_lyrics (JArr v) = Inl e) \<and>
      post_align env http_url url (JArr v) w = Some (Unprocessable, w))"
proof (intro conjI impI)
  show "validate_lyrics (JArr []) = Inl (Raised ValueError ''lyrics cannot be empty'')" by simp
  show "i = k" if "multiline_msg i = multiline_msg k" using that by (rule multiline_msg_inj)
  show "validate_lyrics (JArr (map JStr ls)) = Inl (Raised ValueError (multiline_msg i))"
    if "i < length ls \<and> newline \<in> set (ls ! i) \<and> (\<forall>j<i. newline \<notin> set (ls ! j))"
  proof -
    from that have "check_lines 0 (map JStr ls) = Some (Raised ValueError (multiline_msg (0 + i)))"
      by (intro check_lines_first_newline) auto
    moreover from that have "ls \<noteq> []" by auto
    ultimately show ?thesis by simp
  qed
  assume a: "v = [] \<or> (\<exists>s. JStr s \<in> set v \<and> newline \<in> set s)"
  show f: "\<exists>e. validate_lyrics (JArr v) = Inl e"
  proof (cases "v = []")
    case True
    then show ?thesis by simp
  next
    case False
    with a obtain s where "JStr s \<in> set v" "newline \<in> set s" by blast
    then have "check_lines 0 v \<noteq> None" by (rule check_lines_any)
    then obtain e where "check_lines 0 v = Some e" by blast
    with False show ?thesis by simp
  qed
  then show "post_align env http_url url (JArr v) w = Some (Unprocessable, w)"
    using validate_fails_request by (auto simp: post_align_def)
qed


lemma demo_multiline_msg:
  "multiline_msg 1 = ''lyrics[1] appears to be a multiline string. Each item in lyrics should be a single line. Split multiline strings into separate list items.''"
  by (simp add: multiline_msg_def str_nat_digit digit_char_def)

theorem invalid_lines_rejected_witness:
  "validate_lyrics (JArr [JStr ''la'', JStr (''la'' @ [newline] @ ''la'')]) =
     Inl (Raised ValueError ''lyrics[1] appears to be a multiline string. Each item in lyrics should be a single line. Split multiline strings into separate list items.'') \<and>
   post_align demo_env demo_http_url ''https://x/a.mp3''
       (JArr [JStr ''la'', JStr (''la'' @ [newline] @ ''la'')]) demo_world =
     Some (Unprocessable, demo_world) \<and>
   post_align demo_env demo_http_url ''https://x/a.mp3'' (JArr []) demo_world =
     Some (Unprocessable, demo_world)"
proof -
  let ?ls = "[''la'', ''la'' @ [newline] @ ''la'']"
  let ?v = "[JStr ''la'', JStr (''la'' @ [newline] @ ''la'')]"
  have nl: "newline \<notin> set ''la''" by (simp add: newline_def)
  have hyp: "1 < length ?ls \<and> newline \<in> set (?ls ! 1) \<and> (\<forall>j<1. newline \<notin> set (?ls ! j))"
    using nl by simp
  have some: "?v = [] \<or> (\<exists>s. JStr s \<in> set ?v \<and> newline \<in> set s)"
    by auto
  note inst = invalid_lines_rejected[of 1 ?ls 1 ?v demo_env demo_http_url "''https://x/a.mp3''" demo_world]
  from inst hyp have "validate_lyrics (JArr (map JStr ?ls)) = Inl (Raised ValueError (multiline_msg 1))"
    by blast
  then have a: "validate_lyrics (JArr ?v) =
     Inl (Raised ValueError ''lyrics[1] appears to be a multiline string. Each item in lyrics should be a single line. Split multiline strings into separate list items.'')"
    by (simp only: list.map demo_multiline_msg)
  from inst some have b: "post_align demo_env demo_http_url ''https://x/a.mp3'' (JArr ?v) demo_world =
     Some (Unprocessable, demo_world)"
    by blast
  from invalid_lines_rejected[of 0 "[]" 0 "[]" demo_env demo_http_url "''https://x/a.mp3''" demo_world]
  have c: "post_align demo_env demo_http_url ''https://x/a.mp3'' (JArr []) demo_world =
     Some (Unprocessable, demo_world)"
    by blast
  from a b c show ?thesis by blast
qed

subsection \<open>Claim C10\<close>

lemma list_of_str_Nil: "list_of_str v = Some [] \<Longrightarrow> v = []"
  by (induction v rule: list_of_str.induct) auto

lemma request_lyrics_nonempty:
  assumes "new_AlignmentRequest http_url url body = Some request"
  shows "lyrics request \<noteq> []"
proof -
  from assms obtain v where b: "body = JArr v" by (cases body) simp_all
  with assms obtain ls where ls: "list_of_str v = Some ls" and
    ok: "\<exists>v'. validate_lyrics (JArr v) = Inr v'" and r: "lyrics request = ls"
    by (auto split: option.splits sum.splits if_splits)
  from ok have "v \<noteq> []" by (auto split: if_splits)
  with ls have "ls \<noteq> []" using list_of_str_Nil by blast
  with r show ?thesis by simp
qed

lemma write_lyrics_file_nonempty:
  "lyrics' \<noteq> [] \<Longrightarrow> fst (write_lyrics_file lyrics' p w) = Inr () \<or>
     (\<exists>m. fst (write_lyrics_file lyrics' p w) = Inl (Raised OSError m))"
  by (auto simp: write_lyrics_file_def write_file_def split: option.splits)

text \<open>
  Claim C10. The lines of a request that passed validation are not empty, so writing the
  lyrics file for it never raises the 400 \<^verbatim>\<open>Lyrics array cannot be empty\<close>, which is what
  \<^verbatim>\<open>write_lyrics_file\<close> raises for an empty list.
\<close>

theorem empty_lyrics_branch_unreachable:
  assumes "new_AlignmentRequest http_url url body = Some request"
  shows "lyrics request \<noteq> [] \<and>
         fst (write_lyrics_file (lyrics request) p w) \<noteq>
           Inl (HTTPException 400 ''Lyrics array cannot be empty'') \<and>
         fst (write_lyrics_file [] p w) = Inl (HTTPException 400 ''Lyrics array cannot be empty'')"
proof -
  from assms have ne: "lyrics request \<noteq> []" by (rule request_lyrics_nonempty)
  from write_lyrics_file_nonempty[OF ne, of p w]
  have "fst (write_lyrics_file (lyrics request) p w) \<noteq>
           Inl (HTTPException 400 ''Lyrics array cannot be empty'')"
    by auto
  moreover have "fst (write_lyrics_file [] p w) = Inl (HTTPException 400 ''Lyrics array cannot be empty'')"
    by (simp add: write_lyrics_file_def)
  ultimately show ?thesis using ne by blast
qed

theorem empty_lyrics_branch_unreachable_witness:
  "new_AlignmentRequest demo_http_url ''https://x/a.mp3'' (JArr [JStr '' haru no uta '', JStr ''tooi yume'']) =
     Some demo_request \<and>
   fst (write_lyrics_file (lyrics demo_request) (lyrics_file demo_env) demo_world) \<noteq>
     Inl (HTTPException 400 ''Lyrics array cannot be empty'')"
proof -
  have h: "new_AlignmentRequest demo_http_url ''https://x/a.mp3''
             (JArr [JStr '' haru no uta '', JStr ''tooi yume'']) = Some demo_request"
    by (simp add: demo_request_def newline_def demo_http_url_def)
  from empty_lyrics_branch_unreachable[OF h, of "lyrics_file demo_env" demo_world]
  have "fst (write_lyrics_file (lyrics demo_request) (lyrics_file demo_env) demo_world) \<noteq>
     Inl (HTTPException 400 ''Lyrics array cannot be empty'')"
    by blast
  with h show ?thesis by (rule conjI)
qed

subsection \<open>Claim C4\<close>

lemma try_remove_no_raise [simp]: "fst (try_remove p w) = None"
  by (simp add: try_remove_def split: sum.splits)

lemma try_remove_files:
  "files (snd (try_remove p w)) = (if remove_error w p = None then (files w)(p := None) else files w)"
  by (auto simp: try_remove_def os_remove_def os_path_exists_def split: option.splits)

lemma try_remove_remove_error [simp]: "remove_error (snd (try_remove p w)) = remove_error w"
  by (auto simp: try_remove_def os_remove_def split: option.splits)

lemma cleanup_Cons: "cleanup (p # ps) w = cleanup ps (snd (try_remove p w))"
  using try_remove_no_raise[of p w] by (cases "try_remove p w") simp

lemma cleanup_remove_error: "remove_error (snd (cleanup ps w)) = remove_error w"
  by (induction ps arbitrary: w) (simp_all add: cleanup_Cons del: cleanup.simps(2))

lemma cleanup_files:
  "files (snd (cleanup ps w)) q =
     (if q \<in> set ps \<and> remove_error w q = None then None else files w q)"
  by (induction ps arbitrary: w) (auto simp: cleanup_Cons try_remove_files simp del: cleanup.simps(2))

text \<open>
  Claim C4. Whenever the handler reaches an outcome, it is the outcome of the pipeline and
  its \<^verbatim>\<open>except\<close> clauses, whether a result or a failure of any stage, and whatever the
  removals did. Each of the four temporary files, the downloaded audio, the converted
  audio, the lyrics file and the alignment output, is then absent from the storage, unless
  the removal of that very file raised: then it is as the pipeline left it. A removal that
  raises is dropped: it changes neither the outcome nor the removal of the other three
  files, and every other file is as the pipeline left it.
\<close>

theorem temp_files_released:
  assumes "align_lyrics env request w = Some (r, w')"
  shows "\<exists>r0 w1. pipeline env request w = Some (r0, w1) \<and> r = align_except r0 \<and>
     remove_error w' = remove_error w1 \<and>
     files w' (downloaded_audio env) =
       (if remove_error w1 (downloaded_audio env) = None then None
        else files w1 (downloaded_audio env)) \<and>
     files w' (converted_audio env) =
       (if remove_error w1 (converted_audio env) = None then None
        else files w1 (converted_audio env)) \<and>
     files w' (lyrics_file env) =
       (if remove_error w1 (lyrics_file env) = None then None else files w1 (lyrics_file env)) \<and>
     files w' (alignment_output env) =
       (if remove_error w1 (alignment_output env) = None then None
        else files w1 (alignment_output env)) \<and>
     (\<forall>p. p \<noteq> downloaded_audio env \<and> p \<noteq> converted_audio env \<and> p \<noteq> lyrics_file env \<and>
          p \<noteq> alignment_output env \<longrightarrow> files w' p = files w1 p)"
proof -
  from assms obtain r0 w1 where
    p: "pipeline env request w = Some (r0, w1)" and r: "r = align_except r0" and
    w': "w' = snd (cleanup (temp_files env) w1)"
    by (auto simp: align_lyrics_eq)
  have f: "files w' q =
      (if q \<in> set (temp_files env) \<and> remove_error w1 q = None then None else files w1 q)" for q
    unfolding w' by (rule cleanup_files)
  have s: "set (temp_files env) =
      {downloaded_audio env, converted_audio env, lyrics_file env, alignment_output env}"
    by (simp add: temp_files_def)
  have a2: "remove_error w' = remove_error w1" unfolding w' by (rule cleanup_remove_error)
  have a3: "files w' (downloaded_audio env) =
           (if remove_error w1 (downloaded_audio env) = None then None
            else files w1 (downloaded_audio env))" by (simp add: f s)
  have a4: "files w' (converted_audio env) =
           (if remove_error w1 (converted_audio env) = None then None
            else files w1 (converted_audio env))" by (simp add: f s)
  have a5: "files w' (lyrics_file env) =
           (if remove_error w1 (lyrics_file env) = None then None else files w1 (lyrics_file env))"
    by (simp add: f s)
  have a6: "files w' (alignment_output env) =
           (if remove_error w1 (alignment_output env) = None then None
            else files w1 (alignment_output env))" by (simp add: f s)
  have a7: "\<forall>p. p \<noteq> downloaded_audio env \<and> p \<noteq> converted_audio env \<and> p \<noteq> lyrics_file env \<and>
              p \<noteq> alignment_output env \<longrightarrow> files w' p = files w1 p"
    by (simp add: f s)
  show ?thesis
    by (rule exI[of _ r0], rule exI[of _ w1]) (intro conjI p r a2 a3 a4 a5 a6 a7)
qed

lemma demo_strip:
  "strip '' haru no uta '' = ''haru no uta''" "strip ''tooi yume'' = ''tooi yume''"
  "strip ''la la la'' = ''la la la''"
  by code_simp+

lemma demo_pipeline_world:
  assumes "lyrics request \<noteq> []"
  shows "\<exists>w1. pipeline demo_env request (demo_world\<lparr>remove_error := re\<rparr>) =
       Some (reconcile (float_str demo_env) demo_doc (lyrics request), w1) \<and>
     remove_error w1 = re \<and>
     files w1 ''/tmp/audio_7f3a'' = Some ''audio'' \<and>
     files w1 ''/tmp/converted_7f3a.wav'' = Some ''out'' \<and>
     files w1 ''/tmp/lyrics_7f3a.txt'' =
       Some (concat (map (\<lambda>line. strip line @ [newline]) (lyrics request))) \<and>
     files w1 ''/tmp/alignment_7f3a.json'' = Some ''out''"
  using assms
  by (simp add: pipeline_def download_audio_def convert_audio_to_wav_def run_child_def
      write_lyrics_file_def write_file_def run_aeneas_alignment_def parse_aeneas_output_def
      read_json_def ffmpeg_cmd_def aeneas_cmd_def demo_paths demo_env_fields demo_world_def)

lemma one_line_reconcile:
  "reconcile fs demo_doc [''la la la''] =
     Inl (HTTPException 500 ''Alignment mismatch: 2 fragments for 1 lyrics'')"
  by (simp add: reconcile_def demo_doc_def mismatch_msg_def str_nat_digit digit_char_def)

theorem temp_files_released_witness:
  "map_option (\<lambda>(r, w1). (r, map (files w1) [''/tmp/audio_7f3a'', ''/tmp/converted_7f3a.wav'',
        ''/tmp/lyrics_7f3a.txt'', ''/tmp/alignment_7f3a.json'']))
     (pipeline demo_env demo_request demo_world) =
     Some (Inr [\<lparr>line_index = 1, text' = '' haru no uta '', start = Finite 0, end' = Finite 2.5\<rparr>,
                \<lparr>line_index = 2, text' = ''tooi yume'', start = Finite 2.5, end' = Finite 5\<rparr>],
           [Some ''audio'', Some ''out'',
            Some (''haru no uta'' @ [newline] @ ''tooi yume'' @ [newline]), Some ''out'']) \<and>
   map_option (\<lambda>(r, w'). (r, map (files w') [''/tmp/audio_7f3a'', ''/tmp/converted_7f3a.wav'',
        ''/tmp/lyrics_7f3a.txt'', ''/tmp/alignment_7f3a.json'']))
     (align_lyrics demo_env demo_request demo_world) =
     Some (Inr [\<lparr>line_index = 1, text' = '' haru no uta '', start = Finite 0, end' = Finite 2.5\<rparr>,
                \<lparr>line_index = 2, text' = ''tooi yume'', start = Finite 2.5, end' = Finite 5\<rparr>],
           [None, None, None, None]) \<and>
   map_option (\<lambda>(r, w'). (r, map (files w') [''/tmp/audio_7f3a'', ''/tmp/converted_7f3a.wav'',
        ''/tmp/lyrics_7f3a.txt'', ''/tmp/alignment_7f3a.json'']))
     (align_lyrics demo_env demo_request locked_world) =
     Some (Inr [\<lparr>line_index = 1, text' = '' haru no uta '', start = Finite 0, end' = Finite 2.5\<rparr>,
                \<lparr>line_index = 2, text' = ''tooi yume'', start = Finite 2.5, end' = Finite 5\<rparr>],
           [None, Some ''out'', None, None]) \<and>
   map_option (\<lambda>(r, w1). (r, map (files w1) [''/tmp/audio_7f3a'', ''/tmp/converted_7f3a.wav'',
        ''/tmp/lyrics_7f3a.txt'', ''/tmp/alignment_7f3a.json'']))
     (pipeline demo_env \<lparr>audio_url = ''https://x/a.mp3'', lyrics = [''la la la'']\<rparr> demo_world) =
     Some (Inl (HTTPException 500 ''Alignment mismatch: 2 fragments for 1 lyrics''),
           [Some ''audio'', Some ''out'', Some (''la la la'' @ [newline]), Some ''out'']) \<and>
   map_option (\<lambda>(r, w'). (r, map (files w') [''/tmp/audio_7f3a'', ''/tmp/converted_7f3a.wav'',
        ''/tmp/lyrics_7f3a.txt'', ''/tmp/alignment_7f3a.json'']))
     (align_lyrics demo_env \<lparr>audio_url = ''https://x/a.mp3'', lyrics = [''la la la'']\<rparr> demo_world) =
     Some (Inl (HTTPException 500 ''Alignment mismatch: 2 fragments for 1 lyrics''),
           [None, None, None, None])"
proof -
  let ?rs = "[\<lparr>line_index = 1, text' = '' haru no uta '', start = Finite 0, end' = Finite 2.5\<rparr>,
              \<lparr>line_index = 2, text' = ''tooi yume'', start = Finite 2.5, end' = Finite 5\<rparr>]"
  let ?ps = "[''/tmp/audio_7f3a'', ''/tmp/converted_7f3a.wav'', ''/tmp/lyrics_7f3a.txt'',
              ''/tmp/alignment_7f3a.json'']"
  let ?one = "\<lparr>audio_url = ''https://x/a.mp3'', lyrics = [''la la la'']\<rparr>"
  have gen:
    "map_option (\<lambda>(r, w1). (r, map (files w1) ?ps))
       (pipeline demo_env request (demo_world\<lparr>remove_error := re\<rparr>)) =
       Some (reconcile (float_str demo_env) demo_doc (lyrics request),
             [Some ''audio'', Some ''out'',
              Some (concat (map (\<lambda>line. strip line @ [newline]) (lyrics request))), Some ''out'']) \<and>
     map_option (\<lambda>(r, w'). (r, map (files w') ?ps))
       (align_lyrics demo_env request (demo_world\<lparr>remove_error := re\<rparr>)) =
       Some (align_except (reconcile (float_str demo_env) demo_doc (lyrics request)),
             [if re ''/tmp/audio_7f3a'' = None then None else Some ''audio'',
              if re ''/tmp/converted_7f3a.wav'' = None then None else Some ''out'',
              if re ''/tmp/lyrics_7f3a.txt'' = None then None
              else Some (concat (map (\<lambda>line. strip line @ [newline]) (lyrics request))),
              if re ''/tmp/alignment_7f3a.json'' = None then None else Some ''out''])"
    if ne: "lyrics request \<noteq> []" for request re
  proof -
    let ?W = "demo_world\<lparr>remove_error := re\<rparr>"
    let ?R = "reconcile (float_str demo_env) demo_doc (lyrics request)"
    from demo_pipeline_world[OF ne, of re] obtain w1 where
      P: "pipeline demo_env request ?W = Some (?R, w1) \<and>
          remove_error w1 = re \<and>
          files w1 ''/tmp/audio_7f3a'' = Some ''audio'' \<and>
          files w1 ''/tmp/converted_7f3a.wav'' = Some ''out'' \<and>
          files w1 ''/tmp/lyrics_7f3a.txt'' =
            Some (concat (map (\<lambda>line. strip line @ [newline]) (lyrics request))) \<and>
          files w1 ''/tmp/alignment_7f3a.json'' = Some ''out''" ..
    note p = P[THEN conjunct1]
    note rem = P[THEN conjunct2, THEN conjunct1]
    note f1 = P[THEN conjunct2, THEN conjunct2, THEN conjunct1]
    note f2 = P[THEN conjunct2, THEN conjunct2, THEN conjunct2, THEN conjunct1]
    note f3 = P[THEN conjunct2, THEN conjunct2, THEN conjunct2, THEN conjunct2, THEN conjunct1]
    note f4 = P[THEN conjunct2, THEN conjunct2, THEN conjunct2, THEN conjunct2, THEN conjunct2]
    define w' where "w' = snd (cleanup (temp_files demo_env) w1)"
    have a: "align_lyrics demo_env request ?W = Some (align_except ?R, w')"
      by (simp add: align_lyrics_eq p w'_def)
    from temp_files_released[OF a] obtain r0 w0 where
      A: "pipeline demo_env request ?W = Some (r0, w0) \<and> align_except ?R = align_except r0 \<and>
         remove_error w' = remove_error w0 \<and>
         files w' (downloaded_audio demo_env) =
           (if remove_error w0 (downloaded_audio demo_env) = None then None
            else files w0 (downloaded_audio demo_env)) \<and>
         files w' (converted_audio demo_env) =
           (if remove_error w0 (converted_audio demo_env) = None then None
            else files w0 (converted_audio demo_env)) \<and>
         files w' (lyrics_file demo_env) =
           (if remove_error w0 (lyrics_file demo_env) = None then None
            else files w0 (lyrics_file demo_env)) \<and>
         files w' (alignment_output demo_env) =
           (if remove_error w0 (alignment_output demo_env) = None then None
            else files w0 (alignment_output demo_env)) \<and>
         (\<forall>p. p \<noteq> downloaded_audio demo_env \<and> p \<noteq> converted_audio demo_env \<and>
              p \<noteq> lyrics_file demo_env \<and> p \<noteq> alignment_output demo_env \<longrightarrow>
              files w' p = files w0 p)"
      by (elim exE)
    from A[THEN conjunct1] have w0: "w0 = w1" unfolding p by simp
    from A[THEN conjunct2, THEN conjunct2, THEN conjunct2, THEN conjunct1]
    have g1: "files w' ''/tmp/audio_7f3a'' =
        (if re ''/tmp/audio_7f3a'' = None then None else Some ''audio'')"
      unfolding w0 demo_paths rem f1 .
    from A[THEN conjunct2, THEN conjunct2, THEN conjunct2, THEN conjunct2, THEN conjunct1]
    have g2: "files w' ''/tmp/converted_7f3a.wav'' =
        (if re ''/tmp/converted_7f3a.wav'' = None then None else Some ''out'')"
      unfolding w0 demo_paths rem f2 .
    from A[THEN conjunct2, THEN conjunct2, THEN conjunct2, THEN conjunct2, THEN conjunct2,
        THEN conjunct1]
    have g3: "files w' ''/tmp/lyrics_7f3a.txt'' =
        (if re ''/tmp/lyrics_7f3a.txt'' = None then None
         else Some (concat (map (\<lambda>line. strip line @ [newline]) (lyrics request))))"
      unfolding w0 demo_paths rem f3 .
    from A[THEN conjunct2, THEN conjunct2, THEN conjunct2, THEN conjunct2, THEN conjunct2,
        THEN conjunct2, THEN conjunct1]
    have g4: "files w' ''/tmp/alignment_7f3a.json'' =
        (if re ''/tmp/alignment_7f3a.json'' = None then None else Some ''out'')"
      unfolding w0 demo_paths rem f4 .
    show ?thesis
      by (simp only: p a option.map prod.case list.map f1 f2 f3 f4 g1 g2 g3 g4 simp_thms)
  qed
  have dw: "demo_world\<lparr>remove_error := remove_error demo_world\<rparr> = demo_world" by simp
  have lw: "demo_world\<lparr>remove_error := remove_error locked_world\<rparr> = locked_world"
    by (simp add: locked_world_def)
  have rc: "reconcile (float_str demo_env) demo_doc (lyrics demo_request) = Inr ?rs"
    by (rule demo_reconcile)
  have ly: "concat (map (\<lambda>line. strip line @ [newline]) (lyrics demo_request)) =
      ''haru no uta'' @ [newline] @ ''tooi yume'' @ [newline]"
    by (simp add: demo_request_def demo_strip)
  have ne1: "lyrics demo_request \<noteq> []" by (simp add: demo_request_def)
  have ne2: "lyrics ?one \<noteq> []" by simp
  have e1: "remove_error demo_world p = None" for p by (simp add: demo_world_def)
  have e2: "remove_error locked_world ''/tmp/audio_7f3a'' = None"
    "remove_error locked_world ''/tmp/converted_7f3a.wav'' \<noteq> None"
    "remove_error locked_world ''/tmp/lyrics_7f3a.txt'' = None"
    "remove_error locked_world ''/tmp/alignment_7f3a.json'' = None"
    by (simp_all add: locked_world_def demo_world_def)
  note s1 = gen[OF ne1, of "remove_error demo_world", unfolded dw rc ly]
  note s2 = gen[OF ne1, of "remove_error locked_world", unfolded lw rc ly]
  note s3 = gen[OF ne2, of "remove_error demo_world", unfolded dw]
  from s1 have c1: "map_option (\<lambda>(r, w1). (r, map (files w1) ?ps))
       (pipeline demo_env demo_request demo_world) =
     Some (Inr ?rs, [Some ''audio'', Some ''out'',
            Some (''haru no uta'' @ [newline] @ ''tooi yume'' @ [newline]), Some ''out''])"
    by (rule conjunct1)
  from s1[THEN conjunct2] have c2: "map_option (\<lambda>(r, w'). (r, map (files w') ?ps))
       (align_lyrics demo_env demo_request demo_world) = Some (Inr ?rs, [None, None, None, None])"
    by (simp add: e1)
  from s2[THEN conjunct2] have c3: "map_option (\<lambda>(r, w'). (r, map (files w') ?ps))
       (align_lyrics demo_env demo_request locked_world) =
       Some (Inr ?rs, [None, Some ''out'', None, None])"
    by (simp add: e2)
  from s3[THEN conjunct1] have c4: "map_option (\<lambda>(r, w1). (r, map (files w1) ?ps))
       (pipeline demo_env ?one demo_world) =
     Some (Inl (HTTPException 500 ''Alignment mismatch: 2 fragments for 1 lyrics''),
           [Some ''audio'', Some ''out'', Some (''la la la'' @ [newline]), Some ''out''])"
    by (simp add: one_line_reconcile demo_strip)
  from s3[THEN conjunct2] have c5: "map_option (\<lambda>(r, w'). (r, map (files w') ?ps))
       (align_lyrics demo_env ?one demo_world) =
     Some (Inl (HTTPException 500 ''Alignment mismatch: 2 fragments for 1 lyrics''),
           [None, None, None, None])"
    by (simp add: one_line_reconcile e1)
  from c1 c2 c3 c4 c5 show ?thesis by (intro conjI)
qed

subsection \<open>Claim C8\<close>

lemma convert_audio_to_wav_spawn:
  "spawn env (ffmpeg_cmd i o') w = (c, w1) \<Longrightarrow>
     convert_audio_to_wav env i o' w =
       map_option (\<lambda>r. (ffmpeg_except r, w1\<lparr>spawned := spawned w1 @ [ffmpeg_cmd i o']\<rparr>))
         (subprocess_run \<lparr>args = ffmpeg_cmd i o', check = True, timeout = None\<rparr> c)"
  by (cases "subprocess_run \<lparr>args = ffmpeg_cmd i o', check = True, timeout = None\<rparr> c")
     (simp_all add: convert_audio_to_wav_def run_child_def)

lemma run_aeneas_alignment_spawn:
  "spawn env (aeneas_cmd env a t o') w = (c, w1) \<Longrightarrow>
     run_aeneas_alignment env a t o' w =
       map_option (\<lambda>r. (aeneas_except r, w1\<lparr>spawned := spawned w1 @ [aeneas_cmd env a t o']\<rparr>))
         (subprocess_run \<lparr>args = aeneas_cmd env a t o', check = True, timeout = None\<rparr> c)"
  by (cases "subprocess_run \<lparr>args = aeneas_cmd env a t o', check = True, timeout = None\<rparr> c")
     (simp_all add: run_aeneas_alignment_def run_child_def)

text \<open>
  Claim C8. A download that raises ends the request with a 400 whose detail holds the
  message of the exception. An audio converter or an interpreter for the alignment tool
  that is absent ends it with a 500 that says so; a tool that exits with a non-zero code
  ends it with a 500 whose detail ends with the tool's captured stderr, unchanged.
\<close>

theorem failure_classes:
  "(urlretrieve env (audio_url request) (downloaded_audio env) w = Some (Some m, w1) \<longrightarrow>
      map_option fst (align_lyrics env request w) =
        Some (Inl (HTTPException 400 (''Failed to download audio: '' @ m)))) \<and>
   (download_audio env (audio_url request) (downloaded_audio env) w = Some (Inr (), w1) \<and>
    spawn env (ffmpeg_cmd (downloaded_audio env) (converted_audio env)) w1 = (c, w2) \<longrightarrow>
      (c = Fails FileNotFoundError m \<longrightarrow>
         map_option fst (align_lyrics env request w) =
           Some (Inl (HTTPException 500 ''ffmpeg not found. Please install ffmpeg.''))) \<and>
      (c = Exits d rc out err \<and> rc \<noteq> 0 \<longrightarrow>
         map_option fst (align_lyrics env request w) =
           Some (Inl (HTTPException 500 (''Audio conversion failed: '' @ err))))) \<and>
   (download_audio env (audio_url request) (downloaded_audio env) w = Some (Inr (), w1) \<and>
    convert_audio_to_wav env (downloaded_audio env) (converted_audio env) w1 = Some (Inr (), w2) \<and>
    write_lyrics_file (lyrics request) (lyrics_file env) w2 = (Inr (), w3) \<and>
    spawn env (aeneas_cmd env (converted_audio env) (lyrics_file env) (alignment_output env)) w3 =
      (c, w4) \<longrightarrow>
      (c = Fails FileNotFoundError m \<longrightarrow>
         map_option fst (align_lyrics env request w) =
           Some (Inl (HTTPException 500 ''Aeneas not found. Please install aeneas.''))) \<and>
      (c = Exits d rc out err \<and> rc \<noteq> 0 \<longrightarrow>
         map_option fst (align_lyrics env request w) =
           Some (Inl (HTTPException 500 (''Aeneas alignment failed: '' @ err)))))"
proof (intro conjI impI)
  assume "urlretrieve env (audio_url request) (downloaded_audio env) w = Some (Some m, w1)"
  then show "map_option fst (align_lyrics env request w) =
        Some (Inl (HTTPException 400 (''Failed to download audio: '' @ m)))"
    by (simp add: align_lyrics_outcome pipeline_def download_audio_def)
next
  assume a: "download_audio env (audio_url request) (downloaded_audio env) w = Some (Inr (), w1) \<and>
    spawn env (ffmpeg_cmd (downloaded_audio env) (converted_audio env)) w1 = (c, w2)"
  show "map_option fst (align_lyrics env request w) =
           Some (Inl (HTTPException 500 ''ffmpeg not found. Please install ffmpeg.''))"
    if "c = Fails FileNotFoundError m"
    using a that by (simp add: align_lyrics_outcome pipeline_def convert_audio_to_wav_spawn)
  show "map_option fst (align_lyrics env request w) =
           Some (Inl (HTTPException 500 (''Audio conversion failed: '' @ err)))"
    if "c = Exits d rc out err \<and> rc \<noteq> 0"
    using a that by (simp add: align_lyrics_outcome pipeline_def convert_audio_to_wav_spawn)
next
  assume a: "download_audio env (audio_url request) (downloaded_audio env) w = Some (Inr (), w1) \<and>
    convert_audio_to_wav env (downloaded_audio env) (converted_audio env) w1 = Some (Inr (), w2) \<and>
    write_lyrics_file (lyrics request) (lyrics_file env) w2 = (Inr (), w3) \<and>
    spawn env (aeneas_cmd env (converted_audio env) (lyrics_file env) (alignment_output env)) w3 =
      (c, w4)"
  show "map_option fst (align_lyrics env request w) =
           Some (Inl (HTTPException 500 ''Aeneas not found. Please install aeneas.''))"
    if "c = Fails FileNotFoundError m"
    using a that by (simp add: align_lyrics_outcome pipeline_def run_aeneas_alignment_spawn)
  show "map_option fst (align_lyrics env request w) =
           Some (Inl (HTTPException 500 (''Aeneas alignment failed: '' @ err)))"
    if "c = Exits d rc out err \<and> rc \<noteq> 0"
    using a that by (simp add: align_lyrics_outcome pipeline_def run_aeneas_alignment_spawn)
qed

lemma tool_env_fields:
  "uuid4 (tool_env a b) = ''7f3a''"
  "sys_executable (tool_env a b) = ''/usr/bin/python3''"
  "urlretrieve (tool_env a b) = (\<lambda>url p w. Some (None, w\<lparr>files := (files w)(p \<mapsto> ''audio'')\<rparr>))"
  "spawn (tool_env a b) =
     (\<lambda>cmd w. (if hd cmd = ''ffmpeg'' then a else b, w\<lparr>files := (files w)(last cmd \<mapsto> ''out'')\<rparr>))"
  by (simp_all add: tool_env_def demo_env_def)

lemma tool_env_download:
  "download_audio (tool_env a b) u p w = Some (Inr (), w\<lparr>files := (files w)(p \<mapsto> ''audio'')\<rparr>)"
  by (simp add: download_audio_def tool_env_fields)

lemma tool_env_ffmpeg:
  "spawn (tool_env a b) (ffmpeg_cmd i o') w = (a, w\<lparr>files := (files w)(o' \<mapsto> ''out'')\<rparr>)"
  by (simp add: tool_env_fields ffmpeg_cmd_def)

lemma tool_env_aeneas:
  "spawn (tool_env a b) (aeneas_cmd (tool_env a b) x t o') w = (b, w\<lparr>files := (files w)(o' \<mapsto> ''out'')\<rparr>)"
  by (simp add: tool_env_fields aeneas_cmd_def)

lemma tool_env_convert_ok:
  "convert_audio_to_wav (tool_env (Exits 1 0 [] []) b) i o' w =
     Some (Inr (), w\<lparr>files := (files w)(o' \<mapsto> ''out''), spawned := spawned w @ [ffmpeg_cmd i o']\<rparr>)"
  by (simp add: convert_audio_to_wav_spawn[OF tool_env_ffmpeg])

lemma demo_write_ok:
  "write_error w p = None \<Longrightarrow>
     write_lyrics_file (lyrics demo_request) p w =
       (Inr (), snd (write_lyrics_file (lyrics demo_request) p w))"
  by (simp add: write_lyrics_file_def write_file_def demo_request_def)

theorem failure_classes_witness:
  "map_option fst (align_lyrics offline_env demo_request demo_world) =
     Some (Inl (HTTPException 400 ''Failed to download audio: HTTP Error 404: Not Found'')) \<and>
   map_option fst (align_lyrics (tool_env (Fails FileNotFoundError ''No such file or directory'') Hangs)
       demo_request demo_world) =
     Some (Inl (HTTPException 500 ''ffmpeg not found. Please install ffmpeg.'')) \<and>
   map_option fst (align_lyrics (tool_env (Exits 1 1 [] ''a.mp3: Invalid data found'') Hangs)
       demo_request demo_world) =
     Some (Inl (HTTPException 500 ''Audio conversion failed: a.mp3: Invalid data found'')) \<and>
   map_option fst (align_lyrics
       (tool_env (Exits 1 0 [] []) (Fails FileNotFoundError ''No such file or directory''))
       demo_request demo_world) =
     Some (Inl (HTTPException 500 ''Aeneas not found. Please install aeneas.'')) \<and>
   map_option fst (align_lyrics (tool_env (Exits 1 0 [] []) (Exits 2 1 [] ''espeak-ng: not found''))
       demo_request demo_world) =
     Some (Inl (HTTPException 500 ''Aeneas alignment failed: espeak-ng: not found''))"
proof -
  let ?missing = "Fails FileNotFoundError ''No such file or directory''"
  let ?ok = "Exits 1 0 [] []"
  have a: "map_option fst (align_lyrics offline_env demo_request demo_world) =
     Some (Inl (HTTPException 400 ''Failed to download audio: HTTP Error 404: Not Found''))"
    using failure_classes[where env = offline_env and request = demo_request and w = demo_world
        and m = "''HTTP Error 404: Not Found''" and ?w1.0 = demo_world]
    by (simp add: offline_env_def)
  have b: "map_option fst (align_lyrics (tool_env ?missing Hangs) demo_request demo_world) =
     Some (Inl (HTTPException 500 ''ffmpeg not found. Please install ffmpeg.''))"
    using failure_classes[where env = "tool_env ?missing Hangs" and request = demo_request
        and w = demo_world and m = "''No such file or directory''" and c = ?missing]
      tool_env_download[of ?missing Hangs] tool_env_ffmpeg[of ?missing Hangs]
    by blast
  have c: "map_option fst (align_lyrics (tool_env (Exits 1 1 [] ''a.mp3: Invalid data found'') Hangs)
       demo_request demo_world) =
     Some (Inl (HTTPException 500 ''Audio conversion failed: a.mp3: Invalid data found''))"
    using failure_classes[where env = "tool_env (Exits 1 1 [] ''a.mp3: Invalid data found'') Hangs"
        and request = demo_request and w = demo_world
        and c = "Exits 1 1 [] ''a.mp3: Invalid data found''" and d = 1 and rc = 1 and out = "[]"
        and err = "''a.mp3: Invalid data found''"]
      tool_env_download[of "Exits 1 1 [] ''a.mp3: Invalid data found''" Hangs]
      tool_env_ffmpeg[of "Exits 1 1 [] ''a.mp3: Invalid data found''" Hangs]
    by (simp del: One_nat_def)
  let ?E = "\<lambda>c. tool_env ?ok c"
  let ?w1 = "\<lambda>c. demo_world\<lparr>files := (files demo_world)(downloaded_audio (?E c) \<mapsto> ''audio'')\<rparr>"
  let ?w2 = "\<lambda>c. (?w1 c)\<lparr>files := (files (?w1 c))(converted_audio (?E c) \<mapsto> ''out''),
       spawned := spawned (?w1 c) @ [ffmpeg_cmd (downloaded_audio (?E c)) (converted_audio (?E c))]\<rparr>"
  let ?w3 = "\<lambda>c. snd (write_lyrics_file (lyrics demo_request) (lyrics_file (?E c)) (?w2 c))"
  have stages: "download_audio (?E c) (audio_url demo_request) (downloaded_audio (?E c)) demo_world =
        Some (Inr (), ?w1 c) \<and>
      convert_audio_to_wav (?E c) (downloaded_audio (?E c)) (converted_audio (?E c)) (?w1 c) =
        Some (Inr (), ?w2 c) \<and>
      write_lyrics_file (lyrics demo_request) (lyrics_file (?E c)) (?w2 c) = (Inr (), ?w3 c) \<and>
      spawn (?E c) (aeneas_cmd (?E c) (converted_audio (?E c)) (lyrics_file (?E c))
          (alignment_output (?E c))) (?w3 c) =
        (c, (?w3 c)\<lparr>files := (files (?w3 c))(alignment_output (?E c) \<mapsto> ''out'')\<rparr>)" for c
    using demo_write_ok[of "?w2 c" "lyrics_file (?E c)"]
    by (simp add: tool_env_download tool_env_convert_ok tool_env_aeneas demo_world_def)
  have d: "map_option fst (align_lyrics (?E ?missing) demo_request demo_world) =
     Some (Inl (HTTPException 500 ''Aeneas not found. Please install aeneas.''))"
    using failure_classes[where env = "?E ?missing" and request = demo_request and w = demo_world
        and ?w1.0 = "?w1 ?missing" and ?w2.0 = "?w2 ?missing" and ?w3.0 = "?w3 ?missing"
        and c = ?missing and m = "''No such file or directory''"] stages[of ?missing]
    by blast
  have e: "map_option fst (align_lyrics (?E (Exits 2 1 [] ''espeak-ng: not found'')) demo_request demo_world) =
     Some (Inl (HTTPException 500 ''Aeneas alignment failed: espeak-ng: not found''))"
    using failure_classes[where env = "?E (Exits 2 1 [] ''espeak-ng: not found'')"
        and request = demo_request and w = demo_world
        and ?w1.0 = "?w1 (Exits 2 1 [] ''espeak-ng: not found'')"
        and ?w2.0 = "?w2 (Exits 2 1 [] ''espeak-ng: not found'')"
        and ?w3.0 = "?w3 (Exits 2 1 [] ''espeak-ng: not found'')"
        and c = "Exits 2 1 [] ''espeak-ng: not found''" and d = 2 and rc = 1 and out = "[]"
        and err = "''espeak-ng: not found''"]
      stages[of "Exits 2 1 [] ''espeak-ng: not found''"]
    by (simp del: One_nat_def)
  from a b c d e show ?thesis by blast
qed

subsection \<open>Claim C7\<close>

lemma align_lyrics_None: "pipeline env request w = None \<Longrightarrow> align_lyrics env request w = None"
  by (simp add: align_lyrics_def)

text \<open>
  Claim C7, as stated, fails: the two calls of \<^verbatim>\<open>subprocess.run\<close> made for a request pass no
  timeout. With a child that never exits, the stage does not return, and neither does the
  handler: no failure of any class is reported.
\<close>

theorem request_waits_forever_counterexample:
  "convert_audio_to_wav (tool_env Hangs Hangs) ''/tmp/audio_7f3a'' ''/tmp/converted_7f3a.wav''
     demo_world = None \<and>
   align_lyrics (tool_env Hangs Hangs) demo_request demo_world = None \<and>
   run_aeneas_alignment (tool_env (Exits 1 0 [] []) Hangs) ''/tmp/converted_7f3a.wav''
     ''/tmp/lyrics_7f3a.txt'' ''/tmp/alignment_7f3a.json'' demo_world = None \<and>
   align_lyrics (tool_env (Exits 1 0 [] []) Hangs) demo_request demo_world = None"
proof -
  have a: "convert_audio_to_wav (tool_env Hangs b) i o' w = None" for b i o' w
    by (simp add: convert_audio_to_wav_spawn[OF tool_env_ffmpeg])
  have b: "run_aeneas_alignment (tool_env a Hangs) x t o' w = None" for a x t o' w
    by (simp add: run_aeneas_alignment_spawn[OF tool_env_aeneas])
  have c: "align_lyrics (tool_env Hangs Hangs) demo_request demo_world = None"
    by (rule align_lyrics_None) (simp add: pipeline_def tool_env_download a)
  have "lyrics demo_request \<noteq> []" by (simp add: demo_request_def)
  then have d: "align_lyrics (tool_env (Exits 1 0 [] []) Hangs) demo_request demo_world = None"
    by (intro align_lyrics_None)
       (simp add: pipeline_def tool_env_download tool_env_convert_ok b write_lyrics_file_def
          write_file_def demo_world_def)
  from a b c d show ?thesis by blast
qed

lemma probe_tool_timeout:
  "probe_tool tool flag Hangs errors = Some (Inr (errors @ [tool @ '' check timed out'']))"
  "5 < d \<Longrightarrow> probe_tool tool flag (Exits d rc out err) errors =
     Some (Inr (errors @ [tool @ '' check timed out'']))"
  by (simp_all add: probe_tool_def)

text \<open>
  Claim C7, amended. The audio conversion and the forced alignment wait for their child
  without a timeout: the stage returns what the child's exit gives, however long the child
  ran, and does not return when the child never exits. Only the probes of the startup
  check carry a timeout, of 5 seconds: a probe whose child runs longer, or never exits,
  is recorded as \<^verbatim>\<open><tool> check timed out\<close>.
\<close>

theorem only_startup_probes_time_out:
  "(spawn env (ffmpeg_cmd i o') w = (c, w1) \<longrightarrow>
      convert_audio_to_wav env i o' w =
        (case c of
           Hangs \<Rightarrow> None
         | Exits d rc out err \<Rightarrow>
             Some (if rc \<noteq> 0 then Inl (HTTPException 500 (''Audio conversion failed: '' @ err))
                   else Inr (), w1\<lparr>spawned := spawned w1 @ [ffmpeg_cmd i o']\<rparr>)
         | Fails cls m \<Rightarrow>
             Some (ffmpeg_except (Inl (Raised cls m)), w1\<lparr>spawned := spawned w1 @ [ffmpeg_cmd i o']\<rparr>))) \<and>
   (spawn env (aeneas_cmd env a t o') w = (c, w1) \<longrightarrow>
      run_aeneas_alignment env a t o' w =
        (case c of
           Hangs \<Rightarrow> None
         | Exits d rc out err \<Rightarrow>
             Some (if rc \<noteq> 0 then Inl (HTTPException 500 (''Aeneas alignment failed: '' @ err))
                   else Inr (), w1\<lparr>spawned := spawned w1 @ [aeneas_cmd env a t o']\<rparr>)
         | Fails cls m \<Rightarrow>
             Some (aeneas_except (Inl (Raised cls m)),
                   w1\<lparr>spawned := spawned w1 @ [aeneas_cmd env a t o']\<rparr>))) \<and>
   probe_tool tool flag Hangs errors = Some (Inr (errors @ [tool @ '' check timed out''])) \<and>
   (5 < d' \<longrightarrow> probe_tool tool flag (Exits d' rc' out' err') errors =
      Some (Inr (errors @ [tool @ '' check timed out''])))"
proof (intro conjI impI)
  assume "spawn env (ffmpeg_cmd i o') w = (c, w1)"
  then show "convert_audio_to_wav env i o' w =
        (case c of
           Hangs \<Rightarrow> None
         | Exits d rc out err \<Rightarrow>
             Some (if rc \<noteq> 0 then Inl (HTTPException 500 (''Audio conversion failed: '' @ err))
                   else Inr (), w1\<lparr>spawned := spawned w1 @ [ffmpeg_cmd i o']\<rparr>)
         | Fails cls m \<Rightarrow>
             Some (ffmpeg_except (Inl (Raised cls m)), w1\<lparr>spawned := spawned w1 @ [ffmpeg_cmd i o']\<rparr>))"
    by (cases c) (simp_all add: convert_audio_to_wav_spawn)
next
  assume "spawn env (aeneas_cmd env a t o') w = (c, w1)"
  then show "run_aeneas_alignment env a t o' w =
        (case c of
           Hangs \<Rightarrow> None
         | Exits d rc out err \<Rightarrow>
             Some (if rc \<noteq> 0 then Inl (HTTPException 500 (''Aeneas alignment failed: '' @ err))
                   else Inr (), w1\<lparr>spawned := spawned w1 @ [aeneas_cmd env a t o']\<rparr>)
         | Fails cls m \<Rightarrow>
             Some (aeneas_except (Inl (Raised cls m)),
                   w1\<lparr>spawned := spawned w1 @ [aeneas_cmd env a t o']\<rparr>))"
    by (cases c) (simp_all add: run_aeneas_alignment_spawn)
qed (simp_all add: probe_tool_timeout)

theorem only_startup_probes_time_out_witness:
  "convert_audio_to_wav (tool_env Hangs Hangs) ''in.mp3'' ''out.wav'' demo_world = None \<and>
   map_option fst (convert_audio_to_wav (tool_env (Exits 86400 0 [] []) Hangs) ''in.mp3'' ''out.wav''
     demo_world) = Some (Inr ()) \<and>
   run_aeneas_alignment (tool_env Hangs Hangs) ''a.wav'' ''l.txt'' ''o.json'' demo_world = None \<and>
   probe_tool ''ffmpeg'' ''-version'' (Exits 6 0 [] []) [] = Some (Inr [''ffmpeg check timed out''])"
proof -
  note inst = only_startup_probes_time_out[where i = "''in.mp3''" and o' = "''out.wav''"
      and w = demo_world and a = "''a.wav''" and t = "''l.txt''"]
  have a: "convert_audio_to_wav (tool_env Hangs Hangs) ''in.mp3'' ''out.wav'' demo_world = None"
    using inst[where env = "tool_env Hangs Hangs" and c = Hangs] tool_env_ffmpeg[of Hangs Hangs]
    by simp
  have b: "map_option fst (convert_audio_to_wav (tool_env (Exits 86400 0 [] []) Hangs) ''in.mp3''
     ''out.wav'' demo_world) = Some (Inr ())"
    using inst[where env = "tool_env (Exits 86400 0 [] []) Hangs" and c = "Exits 86400 0 [] []"]
      tool_env_ffmpeg[of "Exits 86400 0 [] []" Hangs]
    by simp
  have c: "run_aeneas_alignment (tool_env Hangs Hangs) ''a.wav'' ''l.txt'' ''o.json'' demo_world = None"
    using only_startup_probes_time_out[where env = "tool_env Hangs Hangs" and c = Hangs
        and a = "''a.wav''" and t = "''l.txt''" and o' = "''o.json''" and w = demo_world]
      tool_env_aeneas[of Hangs Hangs]
    by simp
  have d: "probe_tool ''ffmpeg'' ''-version'' (Exits 6 0 [] []) [] = Some (Inr [''ffmpeg check timed out''])"
    using only_startup_probes_time_out[where tool = "''ffmpeg''" and flag = "''-version''"
        and d' = 6 and rc' = 0 and out' = "[]" and err' = "[]" and errors = "[]"]
    by simp
  from a b c d show ?thesis by blast
qed

subsection \<open>Claim C9\<close>

lemma probe_except_acc:
  "probe_except tool errors r =
     (case probe_except tool [] r of Inl e \<Rightarrow> Inl e | Inr es \<Rightarrow> Inr (errors @ es))"
  by (cases "(tool, errors, r)" rule: probe_except.cases) simp_all

lemma probe_tool_acc:
  "probe_tool tool flag c errors =
     map_option (\<lambda>r. case r of Inl e \<Rightarrow> Inl e | Inr es \<Rightarrow> Inr (errors @ es))
       (probe_tool tool flag c [])"
  unfolding probe_tool_def
  by (cases "subprocess_run \<lparr>args = [tool, flag], check = False, timeout = Some 5\<rparr> c")
     (simp_all add: probe_except_acc[of tool errors])

lemma import_except_acc:
  "import_except errors i =
     (case import_except [] i of Inl e \<Rightarrow> Inl e | Inr es \<Rightarrow> Inr (errors @ es))"
  by (cases "(errors, i)" rule: import_except.cases) simp_all

lemma probe_tool_not_None: "probe_tool tool flag c errors \<noteq> None"
  by (cases c) (simp_all add: probe_tool_def)

lemma check_dependencies_returns: "\<exists>r c. check_dependencies p = Some (r, c)"
proof -
  obtain r1 where 1: "probe_tool ''ffmpeg'' ''-version'' (ffmpeg_probe p) [] = Some r1"
    using probe_tool_not_None by blast
  show ?thesis
  proof (cases r1)
    case (Inl e)
    with 1 show ?thesis by (simp add: check_dependencies_def)
  next
    case (Inr errors1)
    obtain r2 where 2: "probe_tool ''espeak-ng'' ''--version'' (espeak_probe p) errors1 = Some r2"
      using probe_tool_not_None by blast
    show ?thesis
    proof (cases r2)
      case (Inl e)
      with 1 2 Inr show ?thesis by (simp add: check_dependencies_def)
    next
      case r2: (Inr errors2)
      show ?thesis
      proof (cases "import_except errors2 (aeneas_import p)")
        case (Inl e)
        with 1 2 Inr r2 show ?thesis by (simp add: check_dependencies_def)
      next
        case r3: (Inr errors3)
        obtain r c where "report errors3 = (r, c)" by (cases "report errors3")
        with 1 2 Inr r2 r3 show ?thesis by (simp add: check_dependencies_def)
      qed
    qed
  qed
qed

lemma check_dependencies_collects:
  assumes "probe_tool ''ffmpeg'' ''-version'' (ffmpeg_probe p) [] = Some (Inr e1)"
    and "probe_tool ''espeak-ng'' ''--version'' (espeak_probe p) [] = Some (Inr e2)"
    and "import_except [] (aeneas_import p) = Inr e3"
  shows "check_dependencies p = Some (report (e1 @ e2 @ e3))"
  using assms
  by (simp add: check_dependencies_def probe_tool_acc[of _ _ _ e1] import_except_acc[of "e1 @ e2"])

lemma sublist_mid: "sublist x y \<Longrightarrow> sublist x (a @ y @ b)"
  unfolding sublist_def by (metis append.assoc)

lemma sublist_join: "x \<in> set xs \<Longrightarrow> sublist x (join sep xs)"
proof (induction sep xs rule: join.induct)
  case (1 sep)
  then show ?case by simp
next
  case (2 sep y)
  then show ?case by simp
next
  case (3 sep y z zs)
  show ?case
  proof (cases "x = y")
    case True
    then show ?thesis by simp
  next
    case False
    with 3 have "sublist x (join sep (z # zs))" by simp
    then have "sublist x ((y @ sep) @ join sep (z # zs) @ [])" by (rule sublist_mid)
    then show ?thesis by simp
  qed
qed

lemma full_msg_lists_errors:
  assumes "e \<in> set errors"
  shows "sublist (''  - '' @ e) (full_msg errors @ [newline])"
proof -
  define block where "block = msg_block errors"
  from assms have "''  - '' @ e \<in> set (map (\<lambda>error. ''  - '' @ error) errors)" by auto
  then have "sublist (''  - '' @ e) (error_msg errors)"
    unfolding error_msg_def by (rule sublist_join)
  then have "sublist (''  - '' @ e)
     (([newline] @ ''DEPENDENCY CHECK FAILED'' @ [newline] @
       ''The following required dependencies are missing or broken:'' @ [newline, newline]) @
      error_msg errors @
      ([newline, newline] @ ''Please install all dependencies before starting the server.'' @
       [newline] @ ''=''))"
    by (rule sublist_mid)
  then have b: "sublist (''  - '' @ e) block"
    by (simp only: block_def msg_block_def append.assoc)
  have "replicate 60 block = block # replicate 59 block"
    by (simp add: replicate_Suc[symmetric] del: replicate_Suc)
  then have "concat (replicate 60 block) = [] @ block @ concat (replicate 59 block)"
    by simp
  with sublist_mid[OF b, of "[]" "concat (replicate 59 block)"]
  have "sublist (''  - '' @ e) (concat (replicate 60 block))" by simp
  then have "sublist (''  - '' @ e)
     (([newline] @ replicate 60 CHR ''='') @ concat (replicate 60 block) @ ([newline] @ [newline]))"
    by (rule sublist_mid)
  then show ?thesis
    by (simp only: full_msg_def block_def append.assoc)
qed


text \<open>
  Claim C9. The startup check always returns. It probes the audio tool, the speech tool and
  the alignment module in turn, and the faults of all three (a missing binary, a non-zero
  exit, a timeout, a failed import) are collected: the list it reports is the faults of
  the first, then of the second, then of the third, each as if probed alone. When the list
  is not empty, the check prints a message in which every fault stands, raises a
  \<open>RuntimeError\<close>, and the server does not start to accept requests.
\<close>

theorem preflight_collects_all:
  "(\<exists>r c. check_dependencies p = Some (r, c)) \<and>
   (probe_tool ''ffmpeg'' ''-version'' (ffmpeg_probe p) [] = Some (Inr e1) \<and>
    probe_tool ''espeak-ng'' ''--version'' (espeak_probe p) [] = Some (Inr e2) \<and>
    import_except [] (aeneas_import p) = Inr e3 \<longrightarrow>
      startup_event p = Some (report (e1 @ e2 @ e3)) \<and>
      (e1 @ e2 @ e3 \<noteq> [] \<longrightarrow> \<not> accepts_requests p)) \<and>
   probe_tool tool flag (Fails FileNotFoundError m) [] =
     Some (Inr [tool @ '' not found. Install with: brew install '' @ tool @
                '' (macOS) or apt-get install '' @ tool @ '' (Linux)'']) \<and>
   (d \<le> 5 \<and> rc \<noteq> 0 \<longrightarrow>
      probe_tool tool flag (Exits d rc out err) [] =
        Some (Inr [tool @ '' is installed but returned an error''])) \<and>
   (5 < d \<longrightarrow> probe_tool tool flag (Exits d rc out err) [] = Some (Inr [tool @ '' check timed out''])) \<and>
   probe_tool tool flag Hangs [] = Some (Inr [tool @ '' check timed out'']) \<and>
   import_except [] (Some (ImportError, m)) =
     Inr [''aeneas Python module not found. Install with: pip3 install aeneas. Error: '' @ m] \<and>
   (errors \<noteq> [] \<longrightarrow>
      fst (report errors) =
        Inl (Raised RuntimeError ''Missing required dependencies. See error messages above.'') \<and>
      printed_err (snd (report errors)) = full_msg errors @ [newline] \<and>
      (\<forall>e \<in> set errors. sublist (''  - '' @ e) (printed_err (snd (report errors)))))"
proof (intro conjI impI)
  show "\<exists>r c. check_dependencies p = Some (r, c)" by (rule check_dependencies_returns)
  show "probe_tool tool flag (Fails FileNotFoundError m) [] =
     Some (Inr [tool @ '' not found. Install with: brew install '' @ tool @
                '' (macOS) or apt-get install '' @ tool @ '' (Linux)''])"
    by (simp add: probe_tool_def)
  show "probe_tool tool flag (Exits d rc out err) [] =
        Some (Inr [tool @ '' is installed but returned an error''])" if "d \<le> 5 \<and> rc \<noteq> 0"
    using that by (simp add: probe_tool_def)
  show "probe_tool tool flag (Exits d rc out err) [] = Some (Inr [tool @ '' check timed out''])"
    if "5 < d" using that by (simp add: probe_tool_def)
  show "probe_tool tool flag Hangs [] = Some (Inr [tool @ '' check timed out''])"
    by (simp add: probe_tool_def)
  show "import_except [] (Some (ImportError, m)) =
     Inr [''aeneas Python module not found. Install with: pip3 install aeneas. Error: '' @ m]"
    by simp
next
  assume a: "probe_tool ''ffmpeg'' ''-version'' (ffmpeg_probe p) [] = Some (Inr e1) \<and>
    probe_tool ''espeak-ng'' ''--version'' (espeak_probe p) [] = Some (Inr e2) \<and>
    import_except [] (aeneas_import p) = Inr e3"
  then show s: "startup_event p = Some (report (e1 @ e2 @ e3))"
    by (simp add: startup_event_def check_dependencies_collects)
  assume "e1 @ e2 @ e3 \<noteq> []"
  then have "fst (report (e1 @ e2 @ e3)) \<noteq> Inr ()" by (simp add: report_def)
  with s show "\<not> accepts_requests p"
    by (cases "report (e1 @ e2 @ e3)") (auto simp: accepts_requests_def split: sum.splits)
next
  assume ne: "errors \<noteq> []"
  then show "fst (report errors) =
        Inl (Raised RuntimeError ''Missing required dependencies. See error messages above.'')"
    by (simp add: report_def)
  from ne show pe: "printed_err (snd (report errors)) = full_msg errors @ [newline]"
    by (simp add: report_def)
  show "\<forall>e \<in> set errors. sublist (''  - '' @ e) (printed_err (snd (report errors)))"
    unfolding pe using full_msg_lists_errors by blast
qed

theorem preflight_collects_all_witness:
  "startup_event broken_probes =
     Some (report [''ffmpeg not found. Install with: brew install ffmpeg (macOS) or apt-get install ffmpeg (Linux)'',
                   ''espeak-ng is installed but returned an error'']) \<and>
   \<not> accepts_requests broken_probes \<and>
   fst (report [''ffmpeg not found. Install with: brew install ffmpeg (macOS) or apt-get install ffmpeg (Linux)'',
                ''espeak-ng is installed but returned an error'']) =
     Inl (Raised RuntimeError ''Missing required dependencies. See error messages above.'') \<and>
   sublist ''  - espeak-ng is installed but returned an error''
     (printed_err (snd (report
        [''ffmpeg not found. Install with: brew install ffmpeg (macOS) or apt-get install ffmpeg (Linux)'',
         ''espeak-ng is installed but returned an error''])))"
proof -
  let ?e1 = "''ffmpeg not found. Install with: brew install ffmpeg (macOS) or apt-get install ffmpeg (Linux)''"
  let ?e2 = "''espeak-ng is installed but returned an error''"
  have h1: "probe_tool ''ffmpeg'' ''-version'' (ffmpeg_probe broken_probes) [] = Some (Inr [?e1])"
    by (simp add: probe_tool_def broken_probes_def)
  have h2: "probe_tool ''espeak-ng'' ''--version'' (espeak_probe broken_probes) [] = Some (Inr [?e2])"
    by (simp add: probe_tool_def broken_probes_def)
  have h3: "import_except [] (aeneas_import broken_probes) = Inr []"
    by (simp add: broken_probes_def)
  note inst = preflight_collects_all[where p = broken_probes and ?e1.0 = "[?e1]" and ?e2.0 = "[?e2]"
      and ?e3.0 = "[]" and errors = "[?e1, ?e2]"]
  from inst h1 h2 h3 have a: "startup_event broken_probes = Some (report [?e1, ?e2])"
    and b: "\<not> accepts_requests broken_probes"
    by simp_all
  have ne: "[?e1, ?e2] \<noteq> []" by simp
  from inst ne have c: "fst (report [?e1, ?e2]) =
     Inl (Raised RuntimeError ''Missing required dependencies. See error messages above.'')"
    by blast
  from inst ne have d: "\<forall>e \<in> set [?e1, ?e2]. sublist (''  - '' @ e) (printed_err (snd (report [?e1, ?e2])))"
    by blast
  have "?e2 \<in> set [?e1, ?e2]" by simp
  with d have "sublist (''  - '' @ ?e2) (printed_err (snd (report [?e1, ?e2])))" by blast
  then have e: "sublist ''  - espeak-ng is installed but returned an error''
     (printed_err (snd (report [?e1, ?e2])))" by simp
  from a b c e show ?thesis by blast
qed

end
